theory Spec2Isabelle
  imports Complex_Main "HOL-Library.AList"
begin

section \<open>JavaScript values and object literals\<close>

text \<open>
  The adapters are TypeScript classes. Their mapping tables are object literals that are
  read with \<^verbatim>\<open>table[key] || fallback\<close>. A property read on an object literal looks at the
  literal's own keys first and then at \<^verbatim>\<open>Object.prototype\<close>, whose members (functions, and
  the prototype object itself under \<^verbatim>\<open>__proto__\<close>) are all truthy and none of them is a
  string. A value read from a table is therefore either a string of the table or such an
  inherited member.
\<close>

datatype jsval = Str string | Inherited string

definition object_prototype_names :: "string list" where
  "object_prototype_names =
     [''constructor'', ''__proto__'', ''hasOwnProperty'', ''isPrototypeOf'',
      ''propertyIsEnumerable'', ''toLocaleString'', ''toString'', ''valueOf'',
      ''__defineGetter__'', ''__defineSetter__'', ''__lookupGetter__'', ''__lookupSetter__'']"

text \<open>\<^verbatim>\<open>table[key]\<close> for an object literal with string values; \<open>None\<close> is \<^verbatim>\<open>undefined\<close>.\<close>

definition lookup_literal :: "(string \<times> string) list \<Rightarrow> string \<Rightarrow> jsval option" where
  "lookup_literal table key =
     (case map_of table key of
        Some v \<Rightarrow> Some (Str v)
      | None \<Rightarrow> if key \<in> set object_prototype_names then Some (Inherited key) else None)"

fun truthy :: "jsval \<Rightarrow> bool" where
  "truthy (Str s) = (s \<noteq> [])"
| "truthy (Inherited k) = True"

text \<open>\<^verbatim>\<open>a || b\<close> where \<open>a\<close> may be \<^verbatim>\<open>undefined\<close>.\<close>

definition js_or :: "jsval option \<Rightarrow> jsval \<Rightarrow> jsval" where
  "js_or a b = (case a of Some v \<Rightarrow> if truthy v then v else b | None \<Rightarrow> b)"

text \<open>\<^verbatim>\<open>a || null\<close>.\<close>

definition js_or_null :: "jsval option \<Rightarrow> jsval option" where
  "js_or_null a = (case a of Some v \<Rightarrow> if truthy v then Some v else None | None \<Rightarrow> None)"

text \<open>
  A value used as a property key is converted to a string. An inherited member is a
  built-in function, printed as \<^verbatim>\<open>function NAME() { [native code] }\<close>, except
  \<^verbatim>\<open>__proto__\<close>, which is the prototype object and prints as \<^verbatim>\<open>[object Object]\<close>.
\<close>

definition property_key :: "jsval \<Rightarrow> string" where
  "property_key v =
     (case v of
        Str s \<Rightarrow> s
      | Inherited k \<Rightarrow>
          if k = ''__proto__'' then ''[object Object]''
          else ''function '' @ (if k = ''constructor'' then ''Object'' else k)
               @ ''() { [native code] }'')"

text \<open>
  Numbers are modelled as reals where they are points and as integers where they are
  identifiers, weeks and clock readings; \<^verbatim>\<open>x || 0\<close> on an optional number reads a
  missing value as 0.
\<close>

definition num_or_zero :: "real option \<Rightarrow> real" where
  "num_or_zero x = (case x of Some v \<Rightarrow> v | None \<Rightarrow> 0)"

text \<open>\<^verbatim>\<open>n.toString()\<close> and template interpolation of an integer: its decimal form.\<close>

definition digit_char :: "nat \<Rightarrow> char" where
  "digit_char d = ''0123456789'' ! d"

function nat_toString :: "nat \<Rightarrow> string" where
  "nat_toString n =
     (if n < 10 then [digit_char n]
      else nat_toString (n div 10) @ [digit_char (n mod 10)])"
  by pat_completeness auto
termination
  by (relation "measure (\<lambda>n. n)") auto

declare nat_toString.simps [simp del]

definition int_toString :: "int \<Rightarrow> string" where
  "int_toString i = (if i < 0 then ''-'' @ nat_toString (nat (- i)) else nat_toString (nat i))"

text \<open>\<^verbatim>\<open>hay.includes(needle)\<close>: the needle occurs as a contiguous substring.\<close>

fun startsWith :: "string \<Rightarrow> string \<Rightarrow> bool" where
  "startsWith hay [] = True"
| "startsWith [] (c # cs) = False"
| "startsWith (h # hs) (c # cs) = (h = c \<and> startsWith hs cs)"

fun includes_str :: "string \<Rightarrow> string \<Rightarrow> bool" where
  "includes_str [] needle = (needle = [])"
| "includes_str (h # hs) needle = (startsWith (h # hs) needle \<or> includes_str hs needle)"

text \<open>
  A thrown value. Everything the adapters throw is an \<^verbatim>\<open>Error\<close> (or a subclass raised by
  the HTTP client), with a name and a message; \<^verbatim>\<open>`${error}`\<close> prints both.
\<close>

datatype js_error = JsError (error_name: string) (message: string)

definition Error :: "string \<Rightarrow> js_error" where
  "Error msg = JsError ''Error'' msg"

definition error_toString :: "js_error \<Rightarrow> string" where
  "error_toString e =
     (if error_name e = [] then message e
      else if message e = [] then error_name e
      else error_name e @ '': '' @ message e)"

section \<open>Position, slot and injury tables\<close>

subsection \<open>ESPN\<close>

text \<open>
  The ESPN tables are keyed by numbers. A numeric key never names a member of
  \<^verbatim>\<open>Object.prototype\<close>, so the read is a lookup in the literal.
\<close>

definition mapESPNPosition :: "int \<Rightarrow> string" where
  "mapESPNPosition positionId =
     (case map_of [(1, ''QB''), (2, ''RB''), (3, ''WR''), (4, ''TE''), (5, ''K''), (16, ''DEF'')]
             positionId of
        Some v \<Rightarrow> if v \<noteq> [] then v else ''UNKNOWN''
      | None \<Rightarrow> ''UNKNOWN'')"

definition mapESPNLineupPosition :: "int \<Rightarrow> string option" where
  "mapESPNLineupPosition slotId =
     (case map_of [(0, ''QB''), (1, ''RB1''), (2, ''RB2''), (3, ''WR1''), (4, ''WR2''),
                   (5, ''TE''), (6, ''FLEX''), (7, ''K''), (8, ''DEF''), (20, ''BENCH'')]
             slotId of
        Some v \<Rightarrow> if v \<noteq> [] then Some v else None
      | None \<Rightarrow> None)"

definition mapESPNTeam :: "int \<Rightarrow> string" where
  "mapESPNTeam teamId =
     (case map_of
        [(1, ''ATL''), (2, ''BUF''), (3, ''CHI''), (4, ''CIN''), (5, ''CLE''), (6, ''DAL''),
         (7, ''DEN''), (8, ''DET''), (9, ''GB''), (10, ''TEN''), (11, ''IND''), (12, ''KC''),
         (13, ''LV''), (14, ''LAR''), (15, ''MIA''), (16, ''MIN''), (17, ''NE''), (18, ''NO''),
         (19, ''NYG''), (20, ''NYJ''), (21, ''PHI''), (22, ''ARI''), (23, ''PIT''), (24, ''LAC''),
         (25, ''SF''), (26, ''SEA''), (27, ''TB''), (28, ''WSH''), (29, ''CAR''), (30, ''JAX''),
         (33, ''BAL''), (34, ''HOU'')] teamId of
        Some v \<Rightarrow> if v \<noteq> [] then v else ''UNK''
      | None \<Rightarrow> ''UNK'')"

definition mapESPNInjuryStatus :: "string \<Rightarrow> jsval" where
  "mapESPNInjuryStatus status =
     js_or (lookup_literal
              [(''ACTIVE'', ''healthy''), (''QUESTIONABLE'', ''questionable''),
               (''DOUBTFUL'', ''doubtful''), (''OUT'', ''out'')] status)
           (Str ''healthy'')"

subsection \<open>Yahoo\<close>

definition mapYahooPosition :: "string \<Rightarrow> jsval" where
  "mapYahooPosition position =
     js_or (lookup_literal
              [(''QB'', ''QB''), (''RB'', ''RB''), (''WR'', ''WR''), (''TE'', ''TE''),
               (''K'', ''K''), (''DEF'', ''DEF'')] position)
           (Str position)"

definition mapYahooLineupPosition :: "string \<Rightarrow> jsval option" where
  "mapYahooLineupPosition position =
     js_or_null (lookup_literal
              [(''QB'', ''QB''), (''RB'', ''RB1''), (''WR'', ''WR1''), (''TE'', ''TE''),
               (''K'', ''K''), (''DEF'', ''DEF''), (''W/R/T'', ''FLEX''), (''BN'', ''BENCH'')]
              position)"


definition mapYahooInjuryStatus :: "string \<Rightarrow> jsval" where
  "mapYahooInjuryStatus status =
     js_or (lookup_literal
              [('''', ''healthy''), (''Q'', ''questionable''), (''D'', ''doubtful''),
               (''O'', ''out'')] status)
           (Str ''healthy'')"

subsection \<open>Sleeper\<close>

definition mapSleeperPosition :: "string \<Rightarrow> jsval" where
  "mapSleeperPosition position =
     js_or (lookup_literal
              [(''QB'', ''QB''), (''RB'', ''RB''), (''WR'', ''WR''), (''TE'', ''TE''),
               (''K'', ''K''), (''DEF'', ''DEF'')] position)
           (Str position)"

definition mapSleeperInjuryStatus :: "string \<Rightarrow> jsval" where
  "mapSleeperInjuryStatus status =
     js_or (lookup_literal
              [('''', ''healthy''), (''Questionable'', ''questionable''),
               (''Doubtful'', ''doubtful''), (''Out'', ''out'')] status)
           (Str ''healthy'')"

subsection \<open>The canonical vocabularies\<close>

definition canonical_positions :: "string set" where
  "canonical_positions = {''QB'', ''RB'', ''WR'', ''TE'', ''K'', ''DEF'', ''FLEX''}"

definition canonical_statuses :: "string set" where
  "canonical_statuses = {''healthy'', ''questionable'', ''doubtful'', ''out''}"

section \<open>The canonical lineup\<close>

text \<open>
  A \<^verbatim>\<open>Player\<close> as the adapters build it. The position and the injury status are what
  the mapping tables return. A \<^verbatim>\<open>Lineup\<close>'s \<^verbatim>\<open>players\<close> object maps a slot name to one
  player, and \<^verbatim>\<open>BENCH\<close> to an array of players. The object is an association list:
  a JavaScript object with string keys lists them in insertion order, and an assignment to
  a key it already has replaces the value in place, which is what \<open>AList.update\<close> does.
  The \<^verbatim>\<open>season\<close> and \<^verbatim>\<open>lastUpdated\<close> fields of a lineup are not modelled.
\<close>

record player =
  player_id :: string
  player_name :: string
  position :: jsval
  team :: string
  injuryStatus :: jsval
  projectedPoints :: "real option"
  actualPoints :: "real option"

datatype slot_value = One player | Many "player list"

type_synonym players_obj = "(string \<times> slot_value) list"

record lineup =
  lineup_id :: string
  teamId :: string
  week :: int
  players :: players_obj
  totalProjectedPoints :: real

fun isArray :: "slot_value \<Rightarrow> bool" where
  "isArray (One p) = False"
| "isArray (Many ps) = True"

text \<open>\<^verbatim>\<open>(v as Player).projectedPoints\<close>: an array has no such property.\<close>

fun projected_of :: "slot_value \<Rightarrow> real option" where
  "projected_of (One p) = projectedPoints p"
| "projected_of (Many ps) = None"

text \<open>
  \<^verbatim>\<open>Object.values(players).filter(player => !Array.isArray(player))
     .reduce((sum, player) => sum + (player.projectedPoints || 0), 0)\<close>,
  the same three lines in every adapter.
\<close>

definition sumProjected :: "players_obj \<Rightarrow> real" where
  "sumProjected ps =
     foldl (\<lambda>sum v. sum + num_or_zero (projected_of v)) 0
       (filter (\<lambda>v. \<not> isArray v) (map snd ps))"

subsection \<open>ESPN: \<^verbatim>\<open>getTeamLineup\<close>\<close>

text \<open>The part of the league response the adapter reads (\<^verbatim>\<open>view=mRoster\<close>).\<close>

record espn_stat =
  statSourceId :: int
  statSplitTypeId :: int
  appliedTotal :: "real option"

record espn_player =
  ep_id :: int
  fullName :: string
  defaultPositionId :: int
  proTeamId :: int
  ep_injuryStatus :: string
  stats :: "espn_stat list option"

record espn_entry =
  lineupSlotId :: int
  playerPoolEntry :: espn_player

record espn_team =
  et_id :: int
  roster_entries :: "espn_entry list"

text \<open>\<^verbatim>\<open>stats?.find(stat => stat.statSourceId === src && stat.statSplitTypeId === 1)?.appliedTotal\<close>\<close>

definition stat_total :: "int \<Rightarrow> espn_player \<Rightarrow> real option" where
  "stat_total src p =
     (case stats p of
        None \<Rightarrow> None
      | Some ss \<Rightarrow>
          (case find (\<lambda>s. statSourceId s = src \<and> statSplitTypeId s = 1) ss of
             None \<Rightarrow> None
           | Some s \<Rightarrow> appliedTotal s))"

definition espn_player_of :: "espn_entry \<Rightarrow> player" where
  "espn_player_of entry =
     (let p = playerPoolEntry entry in
      \<lparr> player_id = int_toString (ep_id p),
        player_name = fullName p,
        position = Str (mapESPNPosition (defaultPositionId p)),
        team = mapESPNTeam (proTeamId p),
        injuryStatus = mapESPNInjuryStatus (ep_injuryStatus p),
        projectedPoints = stat_total 1 p,
        actualPoints = stat_total 0 p \<rparr>)"

text \<open>The body of \<^verbatim>\<open>roster.forEach\<close>.\<close>

definition espn_place :: "players_obj \<Rightarrow> espn_entry \<Rightarrow> players_obj" where
  "espn_place ps entry =
     (case mapESPNLineupPosition (lineupSlotId entry) of
        Some lineupPosition \<Rightarrow>
          if lineupPosition \<noteq> ''BENCH''
          then AList.update lineupPosition (One (espn_player_of entry)) ps
          else ps
      | None \<Rightarrow> ps)"

definition espn_players :: "espn_entry list \<Rightarrow> players_obj" where
  "espn_players roster =
     (let ps = foldl espn_place [] roster;
          benchPlayers = map espn_player_of (filter (\<lambda>entry. lineupSlotId entry = 20) roster)
      in if length benchPlayers > 0 then AList.update ''BENCH'' (Many benchPlayers) ps else ps)"

text \<open>
  The response of the HTTP request is an input: \<open>Inl\<close> when the request throws. The
  \<^verbatim>\<open>try\<close> block is \<open>espn_getTeamLineup_try\<close>; the \<^verbatim>\<open>catch\<close> wraps whatever it threw.
\<close>

definition espn_getTeamLineup_try ::
  "(js_error + espn_team list) \<Rightarrow> string \<Rightarrow> string \<Rightarrow> int \<Rightarrow> js_error + lineup" where
  "espn_getTeamLineup_try response leagueId tid wk =
     (case response of
        Inl e \<Rightarrow> Inl e
      | Inr teams \<Rightarrow>
          (case find (\<lambda>t. int_toString (et_id t) = tid) teams of
             None \<Rightarrow> Inl (Error (''Team '' @ tid @ '' not found in league '' @ leagueId))
           | Some t \<Rightarrow>
               (let ps = espn_players (roster_entries t) in
                Inr \<lparr> lineup_id = ''espn-'' @ tid @ ''-'' @ int_toString wk,
                      teamId = tid,
                      week = wk,
                      players = ps,
                      totalProjectedPoints = sumProjected ps \<rparr>)))"

definition espn_getTeamLineup ::
  "(js_error + espn_team list) \<Rightarrow> string \<Rightarrow> string \<Rightarrow> int \<Rightarrow> js_error + lineup" where
  "espn_getTeamLineup response leagueId tid wk =
     (case espn_getTeamLineup_try response leagueId tid wk of
        Inl e \<Rightarrow> Inl (Error (''Failed to fetch lineup for team '' @ tid @ '': '' @ error_toString e))
      | Inr l \<Rightarrow> Inr l)"

subsection \<open>Yahoo: \<^verbatim>\<open>getTeamLineup\<close>\<close>

text \<open>\<^verbatim>\<open>player.player[0]\<close> of a roster entry, with the fields the adapter reads.\<close>

record yahoo_player =
  yp_player_id :: string
  name_full :: string
  display_position :: string
  selected_position :: string
  editorial_team_abbr :: string
  yp_injury_status :: string
  projected_points_total :: "real option"
  points_total :: "real option"

definition yahoo_player_of :: "yahoo_player \<Rightarrow> player" where
  "yahoo_player_of playerData =
     \<lparr> player_id = yp_player_id playerData,
       player_name = name_full playerData,
       position = mapYahooPosition (display_position playerData),
       team = editorial_team_abbr playerData,
       injuryStatus = mapYahooInjuryStatus (yp_injury_status playerData),
       projectedPoints = projected_points_total playerData,
       actualPoints = points_total playerData \<rparr>"

text \<open>
  The body of \<^verbatim>\<open>roster.forEach\<close>. The guard compares the mapped slot with \<^verbatim>\<open>'BN'\<close>, which
  the table never returns (it maps \<^verbatim>\<open>BN\<close> to \<^verbatim>\<open>BENCH\<close>).
\<close>

definition yahoo_place :: "players_obj \<Rightarrow> yahoo_player \<Rightarrow> players_obj" where
  "yahoo_place ps playerData =
     (case mapYahooLineupPosition (selected_position playerData) of
        Some lineupPosition \<Rightarrow>
          if lineupPosition \<noteq> Str ''BN''
          then AList.update (property_key lineupPosition) (One (yahoo_player_of playerData)) ps
          else ps
      | None \<Rightarrow> ps)"

definition yahoo_players :: "yahoo_player list \<Rightarrow> players_obj" where
  "yahoo_players roster =
     (let ps = foldl yahoo_place [] roster;
          benchPlayers = map yahoo_player_of (filter (\<lambda>p. selected_position p = ''BN'') roster)
      in if length benchPlayers > 0 then AList.update ''BENCH'' (Many benchPlayers) ps else ps)"

text \<open>
  The response is \<open>Inl\<close> when the request throws or the roster is not where the adapter
  reads it (\<^verbatim>\<open>data.fantasy_content.league[1].teams[0].team[1].roster[0].players\<close>).
\<close>

definition yahoo_getTeamLineup ::
  "(js_error + yahoo_player list) \<Rightarrow> string \<Rightarrow> string \<Rightarrow> int \<Rightarrow> js_error + lineup" where
  "yahoo_getTeamLineup response leagueId tid wk =
     (case response of
        Inl e \<Rightarrow> Inl (Error (''Failed to fetch lineup for team '' @ tid @ '': '' @ error_toString e))
      | Inr roster \<Rightarrow>
          (let ps = yahoo_players roster in
           Inr \<lparr> lineup_id = ''yahoo-'' @ tid @ ''-'' @ int_toString wk,
                 teamId = tid,
                 week = wk,
                 players = ps,
                 totalProjectedPoints = sumProjected ps \<rparr>))"

subsection \<open>Sleeper: \<^verbatim>\<open>getTeamLineup\<close>\<close>

record sleeper_player =
  full_name :: string
  sp_position :: string
  sp_team :: string
  sp_injury_status :: string

record sleeper_matchup =
  m_roster_id :: string
  starters :: "string list"
  starters_points :: "real list"

text \<open>
  The four responses the adapter awaits: the rosters (their ids), the league, the week's
  matchups and the table of all players (\<^verbatim>\<open>allPlayers[playerId]\<close>, \<open>None\<close> when the read is
  falsy).
\<close>

record sleeper_upstream =
  rosters :: "js_error + string list"
  league :: "js_error + unit"
  matchups :: "js_error + sleeper_matchup list"
  allPlayers :: "js_error + (string \<Rightarrow> sleeper_player option)"

definition lineupPositions :: "string list" where
  "lineupPositions = [''QB'', ''RB1'', ''RB2'', ''WR1'', ''WR2'', ''TE'', ''FLEX'', ''K'', ''DEF'']"

text \<open>\<^verbatim>\<open>xs[i]\<close> on an array: \<^verbatim>\<open>undefined\<close> past the end.\<close>

definition at_index :: "'a list \<Rightarrow> nat \<Rightarrow> 'a option" where
  "at_index xs i = (if i < length xs then Some (xs ! i) else None)"

definition sleeper_starter ::
  "(string \<Rightarrow> sleeper_player option) \<Rightarrow> sleeper_matchup \<Rightarrow> string \<Rightarrow> nat \<Rightarrow> sleeper_player \<Rightarrow> player" where
  "sleeper_starter allP matchup playerId index p =
     \<lparr> player_id = playerId,
       player_name = full_name p,
       position = mapSleeperPosition (sp_position p),
       team = sp_team p,
       injuryStatus = mapSleeperInjuryStatus (sp_injury_status p),
       projectedPoints = Some 0,
       actualPoints = Some (num_or_zero (at_index (starters_points matchup) index)) \<rparr>"

text \<open>The body of \<^verbatim>\<open>lineupPositions.forEach((position, index) => ...)\<close>.\<close>

definition sleeper_place ::
  "(string \<Rightarrow> sleeper_player option) \<Rightarrow> sleeper_matchup \<Rightarrow> players_obj \<Rightarrow> string \<times> nat \<Rightarrow> players_obj" where
  "sleeper_place allP matchup ps slot =
     (case at_index (starters matchup) (snd slot) of
        None \<Rightarrow> ps
      | Some playerId \<Rightarrow>
          if playerId \<noteq> [] \<and> playerId \<noteq> ''0''
          then (case allP playerId of
                  Some p \<Rightarrow>
                    AList.update (fst slot)
                      (One (sleeper_starter allP matchup playerId (snd slot) p)) ps
                | None \<Rightarrow> ps)
          else ps)"

definition sleeper_bench_player :: "string \<Rightarrow> sleeper_player \<Rightarrow> player" where
  "sleeper_bench_player playerId p =
     \<lparr> player_id = playerId,
       player_name = full_name p,
       position = mapSleeperPosition (sp_position p),
       team = sp_team p,
       injuryStatus = mapSleeperInjuryStatus (sp_injury_status p),
       projectedPoints = Some 0,
       actualPoints = Some 0 \<rparr>"

definition sleeper_players ::
  "(string \<Rightarrow> sleeper_player option) \<Rightarrow> sleeper_matchup option \<Rightarrow> players_obj" where
  "sleeper_players allP found =
     (case found of
        None \<Rightarrow> []
      | Some matchup \<Rightarrow>
          (let ps = foldl (sleeper_place allP matchup) []
                      (zip lineupPositions [0 ..< length lineupPositions]);
               benchPlayers =
                 List.map_filter
                   (\<lambda>playerId. map_option (sleeper_bench_player playerId) (allP playerId))
                   (filter (\<lambda>playerId. playerId \<noteq> [] \<and> playerId \<noteq> ''0'')
                      (drop 9 (starters matchup)))
           in if length benchPlayers > 0 then AList.update ''BENCH'' (Many benchPlayers) ps
              else ps))"

text \<open>
  The requests in the order the adapter awaits them. \<^verbatim>\<open>Promise.all\<close> of the first two
  rejects when either does; the model reports the rosters' error first.
\<close>

definition sleeper_getTeamLineup_try ::
  "sleeper_upstream \<Rightarrow> string \<Rightarrow> string \<Rightarrow> int \<Rightarrow> js_error + lineup" where
  "sleeper_getTeamLineup_try up leagueId tid wk =
     (case rosters up of
        Inl e \<Rightarrow> Inl e
      | Inr rs \<Rightarrow>
     (case league up of
        Inl e \<Rightarrow> Inl e
      | Inr u \<Rightarrow>
     (case find (\<lambda>r. r = tid) rs of
        None \<Rightarrow> Inl (Error (''Team '' @ tid @ '' not found in league '' @ leagueId))
      | Some roster \<Rightarrow>
     (case matchups up of
        Inl e \<Rightarrow> Inl e
      | Inr ms \<Rightarrow>
     (case allPlayers up of
        Inl e \<Rightarrow> Inl e
      | Inr allP \<Rightarrow>
          (let ps = sleeper_players allP (find (\<lambda>m. m_roster_id m = tid) ms) in
           Inr \<lparr> lineup_id = ''sleeper-'' @ tid @ ''-'' @ int_toString wk,
                 teamId = tid,
                 week = wk,
                 players = ps,
                 totalProjectedPoints = sumProjected ps \<rparr>))))))"

definition sleeper_getTeamLineup ::
  "sleeper_upstream \<Rightarrow> string \<Rightarrow> string \<Rightarrow> int \<Rightarrow> js_error + lineup" where
  "sleeper_getTeamLineup up leagueId tid wk =
     (case sleeper_getTeamLineup_try up leagueId tid wk of
        Inl e \<Rightarrow> Inl (Error (''Failed to fetch lineup for team '' @ tid @ '': '' @ error_toString e))
      | Inr l \<Rightarrow> Inr l)"

subsection \<open>The total the specification asks for\<close>

text \<open>
  The specification's wording: the sum of \<^verbatim>\<open>projectedPoints\<close>, a missing value counting
  as 0, over the players of the starting slots, that is of every slot but \<^verbatim>\<open>BENCH\<close>.
\<close>

fun slot_players :: "slot_value \<Rightarrow> player list" where
  "slot_players (One p) = [p]"
| "slot_players (Many ps) = ps"

definition starting_players :: "players_obj \<Rightarrow> player list" where
  "starting_players ps =
     concat (map (\<lambda>kv. slot_players (snd kv)) (filter (\<lambda>kv. fst kv \<noteq> ''BENCH'') ps))"

definition spec_totalProjected :: "players_obj \<Rightarrow> real" where
  "spec_totalProjected ps = sum_list (map (\<lambda>p. num_or_zero (projectedPoints p)) (starting_players ps))"

section \<open>The ESPN session\<close>

text \<open>
  The ESPN service holds one session in memory and a copy of it in the browser's local
  storage under the key \<^verbatim>\<open>espn_auth_session\<close>. The state below is the service together
  with what it touches outside itself: the storage (its keys and the sessions serialised
  under them), and the trace of the storage removals and HTTP requests it has issued,
  oldest first. Console output is not modelled.
\<close>

record ESPNAuthSession =
  sess_isAuthenticated :: bool
  cookies :: string
  expiresAt :: int
  username :: "string option"

datatype effect = StorageRemove string | HttpGet string

record espn_service =
  authSession :: "ESPNAuthSession option"
  localStorage :: "(string \<times> ESPNAuthSession) list"
  effects :: "effect list"

definition clearSession :: "espn_service \<Rightarrow> espn_service" where
  "clearSession st =
     st \<lparr> authSession := None,
          localStorage := AList.delete ''espn_auth_session'' (localStorage st),
          effects := effects st @ [StorageRemove ''espn_auth_session''] \<rparr>"

text \<open>\<^verbatim>\<open>isAuthenticated()\<close>; \<open>now\<close> is the reading of \<^verbatim>\<open>Date.now()\<close>.\<close>

definition isAuthenticated :: "int \<Rightarrow> espn_service \<Rightarrow> bool \<times> espn_service" where
  "isAuthenticated now st =
     (case authSession st of
        None \<Rightarrow> (False, st)
      | Some s \<Rightarrow>
          if now > expiresAt s then (False, clearSession st)
          else (sess_isAuthenticated s, st))"

section \<open>Parsing an ESPN team page\<close>

subsection \<open>What the model takes from the JavaScript runtime\<close>

text \<open>
  The page is searched with regular expressions. The model keeps the control flow of the
  parsing functions and takes the result of every \<^verbatim>\<open>match\<close> call, and of the number and
  JSON parsers, from the record below: each field is the result of one call of the source
  as a function of the text it is applied to.
  \<^item> \<open>match_teamName i html\<close>: capture 1 of the \<open>i\<close>-th pattern of \<^verbatim>\<open>extractTeamName\<close>,
    \<open>None\<close> when it does not match;
  \<^item> \<open>match_record i html\<close>: the captures of the \<open>i\<close>-th pattern of \<^verbatim>\<open>extractRecord\<close>;
  \<^item> \<open>match_initialState\<close>, \<open>match_appData\<close>: capture 1 of the two patterns of
    \<^verbatim>\<open>extractJSONData\<close>; \<open>json_parses\<close>: \<^verbatim>\<open>JSON.parse\<close> does not throw;
  \<^item> \<open>match_context html name\<close>: the first match of \<^verbatim>\<open>.{0,500}NAME.{0,500}\<close>;
  \<^item> \<open>match_contextPosition\<close>, \<open>match_contextTeam\<close>: capture 1 of the position and the team
    pattern applied to a context; \<open>match_rowPosition\<close>, \<open>match_rowTeam\<close>: the same for the
    patterns applied to a table row; \<open>match_decimals\<close>: all matches of \<^verbatim>\<open>(\d+\.\d+)\<close>;
  \<^item> \<open>match_tableRows\<close>: all matches of the table row pattern; \<open>match_anchor\<close>: capture 1
    of \<^verbatim>\<open><a[^>]*>([^<]+)<\/a>\<close> in a row;
  \<^item> \<open>parse_int\<close>, \<open>parse_float\<close>: \<^verbatim>\<open>parseInt\<close> and \<^verbatim>\<open>parseFloat\<close>, \<open>None\<close> for \<^verbatim>\<open>NaN\<close>.
\<close>

record runtime =
  match_teamName :: "nat \<Rightarrow> string \<Rightarrow> string option"
  match_record :: "nat \<Rightarrow> string \<Rightarrow> string list option"
  match_initialState :: "string \<Rightarrow> string option"
  match_appData :: "string \<Rightarrow> string option"
  json_parses :: "string \<Rightarrow> bool"
  match_context :: "string \<Rightarrow> string \<Rightarrow> string option"
  match_contextPosition :: "string \<Rightarrow> string option"
  match_contextTeam :: "string \<Rightarrow> string option"
  match_rowPosition :: "string \<Rightarrow> string option"
  match_rowTeam :: "string \<Rightarrow> string option"
  match_decimals :: "string \<Rightarrow> string list"
  match_tableRows :: "string \<Rightarrow> string list"
  match_anchor :: "string \<Rightarrow> string option"
  parse_int :: "string \<Rightarrow> int option"
  parse_float :: "string \<Rightarrow> real option"

subsection \<open>String helpers\<close>

text \<open>
  A JavaScript string is a sequence of UTF-16 code units. The strings of the model are
  lists of 8-bit characters, read as the code units below 256: the pages, names and
  parameters of the model are the strings over that range.

  \<^verbatim>\<open>String.prototype.trim\<close> strips white space and line terminators from both ends. Below
  256 these are the tab, line feed, vertical tab, form feed, carriage return, the space and
  the no-break space \<^verbatim>\<open>U+00A0\<close>; the others (\<^verbatim>\<open>U+1680\<close>, \<^verbatim>\<open>U+2000\<close> to \<^verbatim>\<open>U+200A\<close>, \<^verbatim>\<open>U+2028\<close>,
  \<^verbatim>\<open>U+2029\<close>, \<^verbatim>\<open>U+202F\<close>, \<^verbatim>\<open>U+205F\<close>, \<^verbatim>\<open>U+3000\<close>, \<^verbatim>\<open>U+FEFF\<close>) lie above that range.
\<close>

definition is_space :: "char \<Rightarrow> bool" where
  "is_space c =
     (c \<in> set [CHR 0x09, CHR 0x0A, CHR 0x0B, CHR 0x0C, CHR 0x0D, CHR '' '', CHR 0xA0])"

definition trim :: "string \<Rightarrow> string" where
  "trim s = rev (dropWhile is_space (rev (dropWhile is_space s)))"

text \<open>\<^verbatim>\<open>s.replace(/^prefix/, '')\<close> and \<^verbatim>\<open>s.replace(/suffix$/, '')\<close> for literal texts.\<close>

definition strip_prefix :: "string \<Rightarrow> string \<Rightarrow> string" where
  "strip_prefix p s = (if startsWith s p then drop (length p) s else s)"

definition strip_suffix :: "string \<Rightarrow> string \<Rightarrow> string" where
  "strip_suffix p s = rev (strip_prefix (rev p) (rev s))"

text \<open>
  The player names are searched with a regular expression made of the escaped name and the
  flag \<^verbatim>\<open>i\<close>. The names are ASCII, and under that flag an ASCII letter of the pattern matches
  the same letter in either case and nothing else, so the search is a substring search that
  ignores the case of the ASCII letters.
\<close>

definition ascii_lower :: "char \<Rightarrow> char" where
  "ascii_lower c =
     (case map_of (zip ''ABCDEFGHIJKLMNOPQRSTUVWXYZ'' ''abcdefghijklmnopqrstuvwxyz'') c of
        Some l \<Rightarrow> l
      | None \<Rightarrow> c)"

definition name_found :: "string \<Rightarrow> string \<Rightarrow> bool" where
  "name_found html playerName = includes_str (map ascii_lower html) (map ascii_lower playerName)"

text \<open>
  \<^verbatim>\<open>String.prototype.toLowerCase\<close>. Below 256 the upper-case letters are \<^verbatim>\<open>A\<close> to \<^verbatim>\<open>Z\<close> and
  \<^verbatim>\<open>U+00C0\<close> to \<^verbatim>\<open>U+00DE\<close> without the multiplication sign \<^verbatim>\<open>U+00D7\<close>; each has its lower-case
  letter 32 places further on.
\<close>

definition lower_char :: "char \<Rightarrow> char" where
  "lower_char c =
     (let n = of_char c :: nat
      in if (65 \<le> n \<and> n \<le> 90) \<or> (192 \<le> n \<and> n \<le> 222 \<and> n \<noteq> 215)
         then char_of (n + 32) else c)"

definition toLowerCase :: "string \<Rightarrow> string" where
  "toLowerCase s = map lower_char s"

subsection \<open>The data the parser builds\<close>

record scraped_player =
  hp_id :: string
  hp_name :: string
  hp_position :: string
  hp_team :: string
  hp_points :: "real option"
  hp_projectedPoints :: "real option"
  hp_status :: string

record win_loss =
  wins :: int
  losses :: int
  ties :: int

text \<open>
  The two shapes \<^verbatim>\<open>parseTeamPage\<close> returns: the mock team of \<^verbatim>\<open>createMockTeamData\<close>, whose
  lineup maps a position to an array of players, and the team built from the page. The
  season is \<^verbatim>\<open>parseInt(season)\<close>; time stamps are not modelled.
\<close>

record mock_team =
  mt_id :: "string option"
  mt_name :: string
  mt_platform :: string
  mt_leagueId :: "string option"
  mt_season :: "int option"
  mt_record :: win_loss
  mt_lineup :: "(string \<times> scraped_player list) list"
  mt_totalProjectedPoints :: real

record scraped_lineup =
  sl_id :: string
  sl_teamId :: string
  sl_week :: int
  sl_players :: "scraped_player list"
  sl_totalProjectedPoints :: real
  sl_totalActualPoints :: real

record scraped_team =
  st_id :: string
  st_name :: string
  st_platform :: string
  st_leagueId :: string
  st_leagueName :: string
  st_ownerId :: string
  st_record :: win_loss
  st_season :: "int option"
  st_isActive :: bool
  st_lineup :: scraped_lineup

datatype team_data = MockTeam mock_team | ScrapedTeam scraped_team

definition mock_player ::
  "string \<Rightarrow> string \<Rightarrow> string \<Rightarrow> string \<Rightarrow> real \<Rightarrow> real \<Rightarrow> scraped_player" where
  "mock_player i n p t pts proj =
     \<lparr> hp_id = i, hp_name = n, hp_position = p, hp_team = t, hp_points = Some pts,
       hp_projectedPoints = Some proj, hp_status = ''active'' \<rparr>"

text \<open>
  \<^verbatim>\<open>createMockTeamData(leagueId, teamId, season)\<close>. The fallback of \<^verbatim>\<open>getTeamFromUrl\<close> calls it
  with identifiers that may be \<^verbatim>\<open>null\<close> (\<open>None\<close>), which the template prints as \<^verbatim>\<open>null\<close>.
\<close>

definition createMockTeamData ::
  "runtime \<Rightarrow> string option \<Rightarrow> string option \<Rightarrow> string \<Rightarrow> mock_team" where
  "createMockTeamData rt leagueId tid season =
     \<lparr> mt_id = tid,
       mt_name = ''ESPN Team '' @ (case tid of Some t \<Rightarrow> t | None \<Rightarrow> ''null''),
       mt_platform = ''ESPN'',
       mt_leagueId = leagueId,
       mt_season = parse_int rt season,
       mt_record = \<lparr> wins = 3, losses = 1, ties = 0 \<rparr>,
       mt_lineup =
         [(''QB'', [mock_player ''1'' ''Josh Allen'' ''QB'' ''BUF'' 25.4 22.1]),
          (''RB'', [mock_player ''2'' ''Christian McCaffrey'' ''RB'' ''SF'' 18.2 16.8,
                    mock_player ''3'' ''Derrick Henry'' ''RB'' ''TEN'' 15.6 14.2]),
          (''WR'', [mock_player ''4'' ''Tyreek Hill'' ''WR'' ''MIA'' 12.8 11.5,
                    mock_player ''5'' ''Davante Adams'' ''WR'' ''LV'' 10.4 9.8]),
          (''TE'', [mock_player ''6'' ''Travis Kelce'' ''TE'' ''KC'' 8.2 7.5]),
          (''FLEX'', []),
          (''K'', [mock_player ''7'' ''Justin Tucker'' ''K'' ''BAL'' 6.0 5.5]),
          (''DEF'', [mock_player ''8'' ''Buffalo Bills'' ''D/ST'' ''BUF'' 4.2 3.8]),
          (''BENCH'', [])],
       mt_totalProjectedPoints = 90.4 \<rparr>"

definition getMockPlayers :: "scraped_player list" where
  "getMockPlayers =
     [mock_player ''1'' ''Josh Allen'' ''QB'' ''BUF'' 25.4 22.1,
      mock_player ''2'' ''Christian McCaffrey'' ''RB'' ''SF'' 18.2 16.8]"

subsection \<open>\<^verbatim>\<open>extractTeamName\<close>, \<^verbatim>\<open>extractRecord\<close>, \<^verbatim>\<open>extractJSONData\<close>\<close>

text \<open>The body of the loop over the eight patterns: the cleaned name, when it is not empty.\<close>

definition cleaned_name :: "string \<Rightarrow> string" where
  "cleaned_name m =
     strip_prefix ''ESPN Fantasy Football - ''
       (strip_suffix '' - ESPN'' (strip_prefix ''Fantasy Football - '' (trim m)))"

fun first_team_name :: "runtime \<Rightarrow> string \<Rightarrow> nat list \<Rightarrow> string" where
  "first_team_name rt html [] = ''ESPN Team''"
| "first_team_name rt html (i # is) =
     (case match_teamName rt i html of
        Some m \<Rightarrow>
          if m \<noteq> [] \<and> cleaned_name m \<noteq> [] then cleaned_name m
          else first_team_name rt html is
      | None \<Rightarrow> first_team_name rt html is)"

definition extractTeamName :: "runtime \<Rightarrow> string \<Rightarrow> string" where
  "extractTeamName rt html = first_team_name rt html [0 ..< 8]"

text \<open>\<^verbatim>\<open>parseInt(x) || 0\<close>.\<close>

definition int_or_zero :: "runtime \<Rightarrow> string \<Rightarrow> int" where
  "int_or_zero rt x = (case parse_int rt x of Some n \<Rightarrow> n | None \<Rightarrow> 0)"

text \<open>\<^verbatim>\<open>text.split('-')\<close>: the pieces between the dashes, at least one.\<close>

fun split_dash :: "string \<Rightarrow> string list" where
  "split_dash [] = [[]]"
| "split_dash (c # cs) =
     (if c = CHR ''-'' then [] # split_dash cs
      else (case split_dash cs of [] \<Rightarrow> [[c]] | p # ps \<Rightarrow> (c # p) # ps))"

text \<open>
  The body of the loop over the four record patterns. A match with three captures is the
  JSON form; otherwise capture 1, when not empty, is a text like \<^verbatim>\<open>3-1-0\<close>. \<open>None\<close> means
  that the loop goes on.
\<close>

definition record_of_match :: "runtime \<Rightarrow> string list \<Rightarrow> win_loss option" where
  "record_of_match rt caps =
     (if length caps = 3
      then Some \<lparr> wins = int_or_zero rt (caps ! 0), losses = int_or_zero rt (caps ! 1),
                  ties = int_or_zero rt (caps ! 2) \<rparr>
      else (case caps of
              [] \<Rightarrow> None
            | c # cs \<Rightarrow>
                if c = [] then None
                else (let parts = split_dash (trim c) in
                      if length parts \<ge> 2
                      then Some \<lparr> wins = int_or_zero rt (parts ! 0),
                                  losses = int_or_zero rt (parts ! 1),
                                  ties = (if length parts > 2 \<and> parts ! 2 \<noteq> []
                                          then int_or_zero rt (parts ! 2) else 0) \<rparr>
                      else None)))"

fun first_record :: "runtime \<Rightarrow> string \<Rightarrow> nat list \<Rightarrow> win_loss" where
  "first_record rt html [] = \<lparr> wins = 3, losses = 1, ties = 0 \<rparr>"
| "first_record rt html (i # is) =
     (case match_record rt i html of
        Some caps \<Rightarrow>
          (case record_of_match rt caps of
             Some r \<Rightarrow> r
           | None \<Rightarrow> first_record rt html is)
      | None \<Rightarrow> first_record rt html is)"

definition extractRecord :: "runtime \<Rightarrow> string \<Rightarrow> win_loss" where
  "extractRecord rt html = first_record rt html [0 ..< 4]"

text \<open>
  The parsed JSON state, kept as its source text. A blob that does not parse makes
  \<^verbatim>\<open>JSON.parse\<close> throw; the function catches that and returns \<^verbatim>\<open>null\<close> without trying the
  second pattern.
\<close>

datatype json = JsonObject string

definition extractJSONData :: "runtime \<Rightarrow> string \<Rightarrow> json option" where
  "extractJSONData rt html =
     (case match_initialState rt html of
        Some blob \<Rightarrow> if json_parses rt blob then Some (JsonObject blob) else None
      | None \<Rightarrow>
          (case match_appData rt html of
             Some blob \<Rightarrow> if json_parses rt blob then Some (JsonObject blob) else None
           | None \<Rightarrow> None))"

subsection \<open>\<^verbatim>\<open>extractPlayers\<close>\<close>

definition playerNames :: "string list" where
  "playerNames =
     [''Jalen Hurts'', ''Kyler Murray'', ''Kyren Williams'', ''Ladd McConkey'',
      ''Marvin Harrison Jr.'', ''Christian McCaffrey'', ''Jonathan Taylor'',
      ''David Montgomery'', ''Mark Andrews'', ''Lions'']"

text \<open>\<^verbatim>\<open>parseFloat(x) || 0\<close>, where \<open>x\<close> may be \<^verbatim>\<open>undefined\<close>.\<close>

definition float_or_zero :: "runtime \<Rightarrow> string option \<Rightarrow> real" where
  "float_or_zero rt x =
     (case x of
        None \<Rightarrow> 0
      | Some t \<Rightarrow> (case parse_float rt t of Some v \<Rightarrow> v | None \<Rightarrow> 0))"

definition or_unk :: "string option \<Rightarrow> string" where
  "or_unk m = (case m of Some v \<Rightarrow> v | None \<Rightarrow> ''UNK'')"

text \<open>
  The body of the loop over the known names: the name is searched in the page, and when
  it is there a player is pushed whose position, team and points come from the text
  around the name.
\<close>

definition probe_name :: "runtime \<Rightarrow> string \<Rightarrow> scraped_player list \<Rightarrow> string \<Rightarrow> scraped_player list" where
  "probe_name rt html found playerName =
     (if name_found html playerName
      then (case match_context rt html playerName of
              Some ctx \<Rightarrow>
                (let pointsMatch = match_decimals rt ctx in
                 found @
                 [\<lparr> hp_id = ''espn_'' @ nat_toString (length found + 1),
                    hp_name = playerName,
                    hp_position = or_unk (match_contextPosition rt ctx),
                    hp_team = or_unk (match_contextTeam rt ctx),
                    hp_points =
                      Some (if pointsMatch = [] then 0
                            else float_or_zero rt (at_index pointsMatch 1)),
                    hp_projectedPoints =
                      Some (if pointsMatch = [] then 0
                            else float_or_zero rt (at_index pointsMatch 0)),
                    hp_status = ''active'' \<rparr>])
            | None \<Rightarrow> found)
      else found)"

definition name_probe :: "runtime \<Rightarrow> string \<Rightarrow> scraped_player list" where
  "name_probe rt html = foldl (probe_name rt html) [] playerNames"

text \<open>The body of the loop over the table rows.\<close>

definition table_row :: "runtime \<Rightarrow> scraped_player list \<Rightarrow> string \<Rightarrow> scraped_player list" where
  "table_row rt found row =
     (if includes_str row ''STARTERS'' \<or> includes_str row ''TOTALS''
         \<or> includes_str row ''Bench'' \<or> includes_str row ''IR''
      then found
      else (case match_anchor rt row of
              Some anchor \<Rightarrow>
                (let pointsMatch = match_decimals rt row in
                 found @
                 [\<lparr> hp_id = ''espn_'' @ nat_toString (length found + 1),
                    hp_name = trim anchor,
                    hp_position = or_unk (match_rowPosition rt row),
                    hp_team = or_unk (match_rowTeam rt row),
                    hp_points =
                      (if length pointsMatch > 1 then parse_float rt (pointsMatch ! 1)
                       else Some 0),
                    hp_projectedPoints =
                      (if length pointsMatch > 0 then parse_float rt (pointsMatch ! 0)
                       else Some 0),
                    hp_status = ''active'' \<rparr>])
            | None \<Rightarrow> found))"

definition table_rows :: "runtime \<Rightarrow> string \<Rightarrow> scraped_player list" where
  "table_rows rt html = foldl (table_row rt) [] (match_tableRows rt html)"

text \<open>
  The known names are tried first; the table rows are read only when no name was found;
  the two mock players are returned when neither gave a player.
\<close>

definition extractPlayers :: "runtime \<Rightarrow> string \<Rightarrow> scraped_player list" where
  "extractPlayers rt html =
     (let found = name_probe rt html in
      if length found > 0 then found
      else (let found = table_rows rt html in
            if length found > 0 then found else getMockPlayers))"

subsection \<open>\<^verbatim>\<open>parseTeamPage\<close>\<close>

text \<open>\<^verbatim>\<open>parseJSONTeamData\<close> ignores the JSON and returns the mock team under the name found.\<close>

definition parseJSONTeamData ::
  "runtime \<Rightarrow> json \<Rightarrow> string \<Rightarrow> string \<Rightarrow> string \<Rightarrow> string \<Rightarrow> team_data" where
  "parseJSONTeamData rt jsonData leagueId tid season teamName =
     (let mockData = createMockTeamData rt (Some leagueId) (Some tid) season in
      MockTeam (mockData \<lparr> mt_name := (if teamName \<noteq> [] then teamName else mt_name mockData) \<rparr>))"

definition parseTeamPage :: "runtime \<Rightarrow> string \<Rightarrow> string \<Rightarrow> string \<Rightarrow> string \<Rightarrow> team_data" where
  "parseTeamPage rt html leagueId tid season =
     (let teamName = extractTeamName rt html;
          rec = extractRecord rt html;
          found = extractPlayers rt html
      in case extractJSONData rt html of
           Some jsonData \<Rightarrow> parseJSONTeamData rt jsonData leagueId tid season teamName
         | None \<Rightarrow>
             if length found > 0 \<and> teamName \<noteq> ''ESPN Team''
             then ScrapedTeam
                    \<lparr> st_id = ''espn_'' @ tid,
                      st_name = teamName,
                      st_platform = ''ESPN'',
                      st_leagueId = leagueId,
                      st_leagueName = ''ESPN League '' @ leagueId,
                      st_ownerId = ''current_user'',
                      st_record = rec,
                      st_season = parse_int rt season,
                      st_isActive = True,
                      st_lineup =
                        \<lparr> sl_id = ''lineup_'' @ tid,
                          sl_teamId = ''espn_'' @ tid,
                          sl_week = 1,
                          sl_players = found,
                          sl_totalProjectedPoints =
                            foldl (\<lambda>sum p. sum + num_or_zero (hp_projectedPoints p)) 0 found,
                          sl_totalActualPoints =
                            foldl (\<lambda>sum p. sum + num_or_zero (hp_points p)) 0 found \<rparr> \<rparr>
             else (let mockData = createMockTeamData rt (Some leagueId) (Some tid) season in
                   MockTeam (mockData \<lparr> mt_name := (if teamName \<noteq> ''ESPN Team'' then teamName
                                                     else mt_name mockData) \<rparr>)))"

section \<open>\<^verbatim>\<open>getTeamFromUrl\<close>\<close>

text \<open>
  What the HTTP client hands over as \<^verbatim>\<open>response.data\<close>. The client parses a body that is
  valid JSON, so the value is a string only when the body is not JSON or is a JSON string
  literal; otherwise it is \<^verbatim>\<open>null\<close>, or an object, an array, a number or a boolean. The
  function treats the last four alike.
\<close>

datatype response_data = Text string | NullData | ParsedData

text \<open>
  What the function takes from outside: the query parameters of the team URL
  (\<^verbatim>\<open>new URLSearchParams(teamUrl.split('?')[1]).get(name)\<close>), the current year as text,
  and the two proxies. A proxy answers a URL (the first one also receives the session
  cookie) with the data of the response, or the request throws.
\<close>

record web =
  url_param :: "string \<Rightarrow> string \<Rightarrow> string option"
  year_now :: string
  cors_anywhere :: "string \<Rightarrow> string \<Rightarrow> js_error + response_data"
  allorigins :: "string \<Rightarrow> js_error + response_data"

text \<open>
  \<^verbatim>\<open>encodeURIComponent\<close>: the letters, the digits and \<^verbatim>\<open>- _ . ! ~ * ' ( )\<close> stay; any other
  character becomes \<^verbatim>\<open>%XX\<close> for each byte of its UTF-8 encoding, which is one byte below 128
  and two bytes from there to 255.
\<close>

definition uri_unreserved :: string where
  "uri_unreserved =
     ''ABCDEFGHIJKLMNOPQRSTUVWXYZabcdefghijklmnopqrstuvwxyz0123456789-_.!~*()'' @ [CHR 0x27]"

definition hex_digit :: "nat \<Rightarrow> char" where
  "hex_digit d = ''0123456789ABCDEF'' ! d"

definition utf8 :: "char \<Rightarrow> nat list" where
  "utf8 c =
     (let n = of_char c :: nat
      in if n < 128 then [n] else [192 + n div 64, 128 + n mod 64])"

definition percent :: "nat \<Rightarrow> string" where
  "percent b = [CHR ''%'', hex_digit (b div 16), hex_digit (b mod 16)]"

definition encodeURIComponent :: "string \<Rightarrow> string" where
  "encodeURIComponent s =
     concat (map (\<lambda>c. if c \<in> set uri_unreserved then [c] else concat (map percent (utf8 c)))
               s)"

text \<open>\<^verbatim>\<open>urlParams.get('season') || new Date().getFullYear().toString()\<close>\<close>

definition season_of :: "web \<Rightarrow> string \<Rightarrow> string" where
  "season_of w teamUrl =
     (case url_param w teamUrl ''season'' of
        Some s \<Rightarrow> if s \<noteq> [] then s else year_now w
      | None \<Rightarrow> year_now w)"

definition teamPageUrl :: "string \<Rightarrow> string \<Rightarrow> string \<Rightarrow> string" where
  "teamPageUrl leagueId tid season =
     ''https://fantasy.espn.com/football/team?leagueId='' @ leagueId @ ''&teamId='' @ tid
       @ ''&season='' @ season"

text \<open>
  The two requests: the proxy that forwards the cookie, and when that request throws the
  proxy without cookies. Each request is recorded in the trace.
\<close>

definition fetch_team_page ::
  "web \<Rightarrow> string \<Rightarrow> string \<Rightarrow> espn_service \<Rightarrow> (js_error + response_data) \<times> espn_service"
  where
  "fetch_team_page w url cookie st =
     (let firstUrl = ''https://cors-anywhere.herokuapp.com/'' @ url;
          st1 = st \<lparr> effects := effects st @ [HttpGet firstUrl] \<rparr>
      in case cors_anywhere w firstUrl cookie of
           Inr d \<Rightarrow> (Inr d, st1)
         | Inl corsError \<Rightarrow>
             (let secondUrl = ''https://api.allorigins.win/raw?url='' @ encodeURIComponent url;
                  st2 = st1 \<lparr> effects := effects st1 @ [HttpGet secondUrl] \<rparr>
              in (allorigins w secondUrl, st2)))"

text \<open>
  The \<^verbatim>\<open>try\<close> block, entered once the session has been found authenticated. After the
  request two log lines read \<^verbatim>\<open>response.data.length\<close> and
  \<^verbatim>\<open>response.data.substring(0, 500)\<close>: the first throws a \<^verbatim>\<open>TypeError\<close> on \<^verbatim>\<open>null\<close>, the second
  on any other value that is not a string (the messages are those of V8). On a string the
  check for a login page is made only when it contains \<^verbatim>\<open><!DOCTYPE\<close>; a string that passes
  is handed to \<^verbatim>\<open>parseTeamPage\<close>.
\<close>

definition getTeamFromUrl_try ::
  "runtime \<Rightarrow> web \<Rightarrow> string \<Rightarrow> espn_service \<Rightarrow> (js_error + team_data) \<times> espn_service" where
  "getTeamFromUrl_try rt w teamUrl st =
     (let leagueId = url_param w teamUrl ''leagueId'';
          tid = url_param w teamUrl ''teamId'';
          season = season_of w teamUrl
      in case (leagueId, tid) of
           (Some lid, Some t) \<Rightarrow>
             if lid = [] \<or> t = []
             then (Inl (Error ''Invalid ESPN team URL. Must contain leagueId and teamId parameters.''),
                   st)
             else (case authSession st of
                     None \<Rightarrow>
                       (Inl (JsError ''TypeError''
                               ''Cannot read properties of null (reading 'cookies')''),
                        st)
                   | Some s \<Rightarrow>
                       (case fetch_team_page w (teamPageUrl lid t season) (cookies s) st of
                          (Inl e, st') \<Rightarrow> (Inl e, st')
                        | (Inr NullData, st') \<Rightarrow>
                            (Inl (JsError ''TypeError''
                                    ''Cannot read properties of null (reading 'length')''),
                             st')
                        | (Inr ParsedData, st') \<Rightarrow>
                            (Inl (JsError ''TypeError''
                                    ''response.data.substring is not a function''),
                             st')
                        | (Inr (Text html), st') \<Rightarrow>
                            if includes_str html ''<!DOCTYPE''
                               \<and> (includes_str html ''login'' \<or> includes_str html ''signin'')
                            then (Inl (Error ''Authentication failed - got login page instead of team data''),
                                  st')
                            else (Inr (parseTeamPage rt html lid t season), st')))
         | _ \<Rightarrow>
             (Inl (Error ''Invalid ESPN team URL. Must contain leagueId and teamId parameters.''),
              st))"

text \<open>
  \<^verbatim>\<open>getTeamFromUrl\<close>. The authentication check is made twice (the first call only feeds a
  log line), each with its own reading of the clock; failing it throws outside the
  \<^verbatim>\<open>try\<close> block. Whatever the \<^verbatim>\<open>try\<close> block throws is caught and replaced by the mock team.
\<close>

definition getTeamFromUrl ::
  "runtime \<Rightarrow> web \<Rightarrow> int \<Rightarrow> int \<Rightarrow> string \<Rightarrow> espn_service \<Rightarrow> (js_error + team_data) \<times> espn_service" where
  "getTeamFromUrl rt w now1 now2 teamUrl st =
     (let (logged, st1) = isAuthenticated now1 st;
          (authenticated, st2) = isAuthenticated now2 st1
      in if \<not> authenticated
         then (Inl (Error ''Not authenticated with ESPN. Please log in first.''), st2)
         else (case getTeamFromUrl_try rt w teamUrl st2 of
                 (Inr teamData, st3) \<Rightarrow> (Inr teamData, st3)
               | (Inl e, st3) \<Rightarrow>
                   (Inr (MockTeam (createMockTeamData rt (url_param w teamUrl ''leagueId'')
                                     (url_param w teamUrl ''teamId'') (season_of w teamUrl))),
                    st3)))"

section \<open>The unified dispatcher\<close>

subsection \<open>Data\<close>

datatype platform = ESPN | Yahoo | Sleeper | CBS


text \<open>A \<^verbatim>\<open>FantasyTeam\<close>; the season is a number (\<open>None\<close> for \<^verbatim>\<open>NaN\<close>), the sync date is not modelled.\<close>

record fantasy_team =
  ft_id :: string
  ft_name :: string
  ft_platform :: platform
  ft_leagueId :: string
  ft_leagueName :: string
  ft_ownerId :: string
  ft_record :: win_loss
  ft_season :: "int option"
  ft_isActive :: bool

record connection_result =
  success :: bool
  cr_platform :: string
  teams :: "fantasy_team list"
  cr_error :: "string option"

text \<open>A league as an adapter's \<^verbatim>\<open>getLeague\<close> returns it, with the fields the dispatcher reads.\<close>

record league_team =
  lt_id :: string
  lt_name :: string
  lt_record :: win_loss

record 'season league_info =
  li_id :: string
  li_name :: string
  li_season :: 'season
  li_teams :: "league_team list"

text \<open>
  What the dispatcher's adapters answer. The league operations are taken whole, as what
  the awaited call settles to (\<open>Inl\<close> when it throws). The lineup operations are the
  models above, applied to the responses of their HTTP requests; the two lineup updates
  that are implemented issue one \<^verbatim>\<open>PUT\<close> request, answered by a status or by a throw.
\<close>

record adapters =
  espn_getLeague :: "string \<Rightarrow> string option \<Rightarrow> js_error + int league_info"
  yahoo_getUserLeagues :: "string \<Rightarrow> js_error + int league_info list"
  sleeper_getLeague :: "string \<Rightarrow> js_error + string league_info"
  parseInt :: "string \<Rightarrow> int option"
  espn_roster :: "string \<Rightarrow> int option \<Rightarrow> int \<Rightarrow> js_error + espn_team list"
  yahoo_roster :: "string \<Rightarrow> string \<Rightarrow> int \<Rightarrow> js_error + yahoo_player list"
  sleeper_data :: "string \<Rightarrow> int \<Rightarrow> sleeper_upstream"
  yahoo_put :: "string \<Rightarrow> string \<Rightarrow> (string \<times> jsval) list \<Rightarrow> js_error + int"
  sleeper_put :: "string \<Rightarrow> string \<Rightarrow> string list \<Rightarrow> js_error + int"

text \<open>
  The credentials are an open map of texts; a key that is absent (\<open>None\<close>) or empty is
  falsy.
\<close>

type_synonym credentials = "string \<Rightarrow> string option"

text \<open>A value that may be \<^verbatim>\<open>undefined\<close>, as a template prints it.\<close>

definition shown :: "string option \<Rightarrow> string" where
  "shown v = (case v of None \<Rightarrow> ''undefined'' | Some s \<Rightarrow> s)"


subsection \<open>\<^verbatim>\<open>connectPlatform\<close>\<close>

definition team_of ::
  "string \<Rightarrow> platform \<Rightarrow> string \<Rightarrow> string \<Rightarrow> string \<Rightarrow> int option \<Rightarrow> league_team \<Rightarrow> fantasy_team" where
  "team_of prefix p tid leagueId leagueName season t =
     \<lparr> ft_id = prefix @ tid, ft_name = lt_name t, ft_platform = p, ft_leagueId = leagueId,
       ft_leagueName = leagueName, ft_ownerId = ''user-1'', ft_record = lt_record t,
       ft_season = season, ft_isActive = True \<rparr>"

definition connected :: "string \<Rightarrow> fantasy_team \<Rightarrow> connection_result" where
  "connected p t = \<lparr> success = True, cr_platform = p, teams = [t], cr_error = None \<rparr>"

definition connectESPN :: "adapters \<Rightarrow> credentials \<Rightarrow> js_error + connection_result" where
  "connectESPN ad creds =
     (case (creds ''leagueId'', creds ''teamId'') of
        (Some leagueId, Some tid) \<Rightarrow>
          if leagueId = [] \<or> tid = []
          then Inl (Error ''ESPN requires league ID and team ID'')
          else (let attempt =
                      (case espn_getLeague ad leagueId (creds ''season'') of
                         Inl e \<Rightarrow> Inl e
                       | Inr lg \<Rightarrow>
                           (case find (\<lambda>t. lt_id t = tid) (li_teams lg) of
                              None \<Rightarrow>
                                Inl (Error (''Team '' @ tid @ '' not found in league '' @ leagueId))
                            | Some t \<Rightarrow>
                                Inr (connected ''ESPN''
                                       (team_of ''espn-'' ESPN tid leagueId (li_name lg)
                                          (Some (li_season lg)) t))))
                in case attempt of
                     Inl e \<Rightarrow> Inl (Error (''ESPN connection failed: '' @ error_toString e))
                   | Inr r \<Rightarrow> Inr r)
      | _ \<Rightarrow> Inl (Error ''ESPN requires league ID and team ID''))"

definition connectYahoo :: "adapters \<Rightarrow> credentials \<Rightarrow> js_error + connection_result" where
  "connectYahoo ad creds =
     (case creds ''accessToken'' of
        None \<Rightarrow> Inl (Error ''Yahoo requires access token'')
      | Some accessToken \<Rightarrow>
          if accessToken = [] then Inl (Error ''Yahoo requires access token'')
          else (let leagueId = creds ''leagueId''; tid = creds ''teamId'';
                    attempt =
                      (case yahoo_getUserLeagues ad accessToken of
                         Inl e \<Rightarrow> Inl e
                       | Inr leagues \<Rightarrow>
                           (case find (\<lambda>l. Some (li_id l) = leagueId) leagues of
                              None \<Rightarrow> Inl (Error (''League '' @ shown leagueId @ '' not found''))
                            | Some lg \<Rightarrow>
                                (case find (\<lambda>t. Some (lt_id t) = tid) (li_teams lg) of
                                   None \<Rightarrow>
                                     Inl (Error (''Team '' @ shown tid @ '' not found in league ''
                                                 @ shown leagueId))
                                 | Some t \<Rightarrow>
                                     Inr (connected ''Yahoo''
                                            (team_of ''yahoo-'' Yahoo (shown tid) (shown leagueId)
                                               (li_name lg) (Some (li_season lg)) t)))))
                in case attempt of
                     Inl e \<Rightarrow> Inl (Error (''Yahoo connection failed: '' @ error_toString e))
                   | Inr r \<Rightarrow> Inr r))"

definition connectSleeper :: "adapters \<Rightarrow> credentials \<Rightarrow> js_error + connection_result" where
  "connectSleeper ad creds =
     (case (creds ''leagueId'', creds ''teamId'') of
        (Some leagueId, Some tid) \<Rightarrow>
          if leagueId = [] \<or> tid = []
          then Inl (Error ''Sleeper requires league ID and team ID'')
          else (let attempt =
                      (case sleeper_getLeague ad leagueId of
                         Inl e \<Rightarrow> Inl e
                       | Inr lg \<Rightarrow>
                           (case find (\<lambda>t. lt_id t = tid) (li_teams lg) of
                              None \<Rightarrow>
                                Inl (Error (''Team '' @ tid @ '' not found in league '' @ leagueId))
                            | Some t \<Rightarrow>
                                Inr (connected ''Sleeper''
                                       (team_of ''sleeper-'' Sleeper tid leagueId (li_name lg)
                                          (parseInt ad (li_season lg)) t))))
                in case attempt of
                     Inl e \<Rightarrow> Inl (Error (''Sleeper connection failed: '' @ error_toString e))
                   | Inr r \<Rightarrow> Inr r)
      | _ \<Rightarrow> Inl (Error ''Sleeper requires league ID and team ID''))"

text \<open>The \<^verbatim>\<open>try\<close> block of \<^verbatim>\<open>connectPlatform\<close>: the switch on the lower-cased platform tag.\<close>

definition connectPlatform_try ::
  "adapters \<Rightarrow> string \<Rightarrow> credentials \<Rightarrow> js_error + connection_result" where
  "connectPlatform_try ad p creds =
     (let tag = toLowerCase p in
      if tag = ''espn'' then connectESPN ad creds
      else if tag = ''yahoo'' then connectYahoo ad creds
      else if tag = ''sleeper'' then connectSleeper ad creds
      else Inl (Error (''Unsupported platform: '' @ p)))"

text \<open>
  \<^verbatim>\<open>connectPlatform\<close>: the \<^verbatim>\<open>catch\<close> turns what the block threw into a result. The function
  is \<^verbatim>\<open>async\<close>; \<open>Inl\<close> would be a rejected promise.
\<close>

definition connectPlatform ::
  "adapters \<Rightarrow> string \<Rightarrow> credentials \<Rightarrow> js_error + connection_result" where
  "connectPlatform ad p creds =
     (case connectPlatform_try ad p creds of
        Inr r \<Rightarrow> Inr r
      | Inl e \<Rightarrow>
          Inr \<lparr> success = False, cr_platform = p, teams = [], cr_error = Some (message e) \<rparr>)"

subsection \<open>\<^verbatim>\<open>getTeamLineup\<close> and \<^verbatim>\<open>updateTeamLineup\<close>\<close>








subsection \<open>Sample pages and sessions\<close>

text \<open>
  Three small pages. \<open>sample_page\<close> has a title, one roster table row whose anchor names a
  player outside the list of known names, and the known name \<^verbatim>\<open>Lions\<close> after the table.
  \<open>sample_json_page\<close> has an embedded state blob and the same table row.
  \<open>sample_login_page\<close> has a lower-case doctype, the word \<^verbatim>\<open>login\<close> in its title and the
  known name \<^verbatim>\<open>Lions\<close>; \<open>sample_doctype_login_page\<close> is a login page with an upper-case
  doctype.
\<close>

definition sample_row :: string where
  \<open>sample_row = ''<tr class="Table__TR"><td><a>Patrick Mahomes</a></td></tr>''\<close>

definition sample_page :: string where
  \<open>sample_page =
     ''<title>Gridiron Gang - ESPN</title><tr class="Table__TR"><td><a>Patrick Mahomes</a></td></tr><p>Lions</p>''\<close>

definition sample_json_page :: string where
  \<open>sample_json_page =
     ''<script>window.__INITIAL_STATE__ = {"teams":[]};</script><tr class="Table__TR"><td><a>Patrick Mahomes</a></td></tr>''\<close>

definition sample_login_page :: string where
  "sample_login_page = ''<!doctype html><title>The login Lions</title>''"

definition sample_doctype_login_page :: string where
  "sample_doctype_login_page = ''<!DOCTYPE html><title>ESPN login</title>''"

definition sample_blob :: string where
  \<open>sample_blob = ''{"teams":[]}''\<close>

text \<open>
  What the regular expressions of the parser find in these three pages, and nothing
  anywhere else. In \<open>sample_json_page\<close> the first JSON pattern captures \<open>sample_blob\<close>,
  which parses. In \<open>sample_page\<close> the fourth team-name pattern (the title) captures
  \<^verbatim>\<open>Gridiron Gang - ESPN\<close>; the text around \<^verbatim>\<open>Lions\<close> is the whole page (one line, under
  500 characters), in which no position token occurs and the first run of two to four
  capitals is \<^verbatim>\<open>ESPN\<close>; the table row pattern finds the one row, whose anchor is
  \<^verbatim>\<open>Patrick Mahomes\<close> and whose first run of capitals is \<^verbatim>\<open>TR\<close>. No page has a decimal number
  or a record.
\<close>

definition sample_runtime :: runtime where
  \<open>sample_runtime =
     \<lparr> match_teamName =
         (\<lambda>i html. if i = 3 \<and> html = sample_page then Some ''Gridiron Gang - ESPN''
                    else if i = 3 \<and> html = sample_login_page then Some ''The login Lions''
                    else None),
       match_record = (\<lambda>i html. None),
       match_initialState =
         (\<lambda>html. if html = sample_json_page then Some sample_blob else None),
       match_appData = (\<lambda>html. None),
       json_parses = (\<lambda>blob. blob = sample_blob),
       match_context =
         (\<lambda>html playerName.
            if playerName = ''Lions'' \<and> (html = sample_page \<or> html = sample_login_page)
            then Some html else None),
       match_contextPosition = (\<lambda>ctx. None),
       match_contextTeam = (\<lambda>ctx. if ctx = sample_page then Some ''ESPN'' else None),
       match_rowPosition = (\<lambda>row. None),
       match_rowTeam = (\<lambda>row. if row = sample_row then Some ''TR'' else None),
       match_decimals = (\<lambda>t. []),
       match_tableRows =
         (\<lambda>html. if html = sample_page \<or> html = sample_json_page then [sample_row] else []),
       match_anchor = (\<lambda>row. if row = sample_row then Some ''Patrick Mahomes'' else None),
       parse_int = (\<lambda>t. if t = ''2025'' then Some 2025 else None),
       parse_float = (\<lambda>t. None) \<rparr>\<close>

definition lions_player :: "string \<Rightarrow> scraped_player" where
  "lions_player t =
     \<lparr> hp_id = ''espn_1'', hp_name = ''Lions'', hp_position = ''UNK'', hp_team = t,
       hp_points = Some 0, hp_projectedPoints = Some 0, hp_status = ''active'' \<rparr>"

definition mahomes_player :: scraped_player where
  "mahomes_player =
     \<lparr> hp_id = ''espn_1'', hp_name = ''Patrick Mahomes'', hp_position = ''UNK'', hp_team = ''TR'',
       hp_points = Some 0, hp_projectedPoints = Some 0, hp_status = ''active'' \<rparr>"

text \<open>A team URL, a session that is valid until the clock reads 2000, and two networks.\<close>

definition sample_url :: string where
  "sample_url = ''https://fantasy.espn.com/football/team?leagueId=45107891&teamId=7&season=2025''"

definition sample_session :: ESPNAuthSession where
  "sample_session =
     \<lparr> sess_isAuthenticated = True, cookies = ''espn_s2=abc'', expiresAt = 2000,
       username = Some ''fan'' \<rparr>"

definition sample_service :: espn_service where
  "sample_service =
     \<lparr> authSession = Some sample_session,
       localStorage = [(''espn_auth_session'', sample_session)],
       effects = [] \<rparr>"

definition sample_params :: "string \<Rightarrow> string \<Rightarrow> string option" where
  "sample_params url key =
     (if url = sample_url
      then map_of [(''leagueId'', ''45107891''), (''teamId'', ''7''), (''season'', ''2025'')] key
      else None)"

text \<open>The first proxy answers with the given data.\<close>

definition direct_web :: "response_data \<Rightarrow> web" where
  "direct_web d =
     \<lparr> url_param = sample_params, year_now = ''2025'',
       cors_anywhere = (\<lambda>url cookie. Inr d),
       allorigins = (\<lambda>url. Inl (JsError ''AxiosError'' ''Network Error'')) \<rparr>"

text \<open>The first proxy fails and the second, which sends no cookie, answers with the given data.\<close>

definition relay_web :: "response_data \<Rightarrow> web" where
  "relay_web d =
     \<lparr> url_param = sample_params, year_now = ''2025'',
       cors_anywhere = (\<lambda>url cookie. Inl (JsError ''AxiosError'' ''Network Error'')),
       allorigins = (\<lambda>url. Inr d) \<rparr>"

subsection \<open>Sample adapters and teams\<close>

text \<open>Adapters behind a network that is down: every request throws.\<close>

definition network_error :: js_error where
  "network_error = JsError ''AxiosError'' ''Network Error''"

definition offline_upstream :: sleeper_upstream where
  "offline_upstream =
     \<lparr> rosters = Inl network_error, league = Inl network_error,
       matchups = Inl network_error, allPlayers = Inl network_error \<rparr>"

definition offline_adapters :: adapters where
  "offline_adapters =
     \<lparr> espn_getLeague =
         (\<lambda>leagueId season.
            Inl (Error (''Failed to fetch league '' @ leagueId @ '': ''
                        @ error_toString network_error))),
       yahoo_getUserLeagues = (\<lambda>token. Inl (Error ''Failed to fetch Yahoo leagues'')),
       sleeper_getLeague =
         (\<lambda>leagueId.
            Inl (Error (''Failed to fetch league '' @ leagueId @ '': ''
                        @ error_toString network_error))),
       parseInt = (\<lambda>t. None),
       espn_roster = (\<lambda>leagueId season wk. Inl network_error),
       yahoo_roster = (\<lambda>leagueId tid wk. Inl network_error),
       sleeper_data = (\<lambda>leagueId wk. offline_upstream),
       yahoo_put = (\<lambda>leagueId tid updates. Inl network_error),
       sleeper_put = (\<lambda>leagueId tid ids. Inl network_error) \<rparr>"


definition sample_credentials :: credentials where
  "sample_credentials = map_of [(''leagueId'', ''45107891''), (''teamId'', ''7'')]"

text \<open>Adapters in front of a Sleeper league with the two teams \<^verbatim>\<open>1\<close> and \<^verbatim>\<open>2\<close>.\<close>

definition sleeper_league :: "string league_info" where
  "sleeper_league =
     \<lparr> li_id = ''123456789'', li_name = ''Sunday League'', li_season = ''2025'',
       li_teams =
         [\<lparr> lt_id = ''1'', lt_name = ''Gridiron Gang'',
             lt_record = \<lparr> wins = 3, losses = 1, ties = 0 \<rparr> \<rparr>,
          \<lparr> lt_id = ''2'', lt_name = ''Blitz'',
             lt_record = \<lparr> wins = 1, losses = 3, ties = 0 \<rparr> \<rparr>] \<rparr>"

definition sleeper_adapters :: adapters where
  "sleeper_adapters =
     offline_adapters
       \<lparr> sleeper_getLeague :=
           (\<lambda>leagueId. if leagueId = ''123456789'' then Inr sleeper_league
                        else Inl (Error (''Failed to fetch league '' @ leagueId @ '': ''
                                         @ error_toString network_error))),
         parseInt := (\<lambda>t. if t = ''2025'' then Some 2025 else None) \<rparr>"

definition sleeper_credentials :: credentials where
  "sleeper_credentials = map_of [(''leagueId'', ''123456789''), (''teamId'', ''1'')]"

section \<open>Notions used in the statements\<close>

subsection \<open>Shapes of a \<^verbatim>\<open>players\<close> object\<close>

text \<open>
  \<open>bench_typed\<close>: the arrays of the object are exactly the values stored under \<^verbatim>\<open>BENCH\<close>.
  \<open>starters_only\<close>: no array and no \<^verbatim>\<open>BENCH\<close> key. \<open>all_single\<close>: no array.
\<close>

definition bench_typed :: "players_obj \<Rightarrow> bool" where
  "bench_typed ps = list_all (\<lambda>kv. isArray (snd kv) = (fst kv = ''BENCH'')) ps"

definition starters_only :: "players_obj \<Rightarrow> bool" where
  "starters_only ps = list_all (\<lambda>kv. \<not> isArray (snd kv) \<and> fst kv \<noteq> ''BENCH'') ps"

definition all_single :: "players_obj \<Rightarrow> bool" where
  "all_single ps = list_all (\<lambda>kv. \<not> isArray (snd kv)) ps"

text \<open>Every player of the object, bench included, and the objects whose players all project 0.\<close>

definition all_players :: "players_obj \<Rightarrow> player list" where
  "all_players ps = concat (map (\<lambda>kv. slot_players (snd kv)) ps)"

definition zero_projected :: "players_obj \<Rightarrow> bool" where
  "zero_projected ps = list_all (\<lambda>p. projectedPoints p = Some 0) (all_players ps)"

subsection \<open>The slot a Yahoo roster entry is written to\<close>

text \<open>
  The key that \<open>yahoo_place\<close> assigns for an entry, \<open>None\<close> when it assigns nothing, and
  the table of \<^verbatim>\<open>mapYahooLineupPosition\<close> under a name.
\<close>

definition yahoo_slot :: "yahoo_player \<Rightarrow> string option" where
  "yahoo_slot e =
     (case mapYahooLineupPosition (selected_position e) of
        Some lp \<Rightarrow> if lp \<noteq> Str ''BN'' then Some (property_key lp) else None
      | None \<Rightarrow> None)"

definition yahoo_slot_table :: "(string \<times> string) list" where
  "yahoo_slot_table =
     [(''QB'', ''QB''), (''RB'', ''RB1''), (''WR'', ''WR1''), (''TE'', ''TE''),
      (''K'', ''K''), (''DEF'', ''DEF''), (''W/R/T'', ''FLEX''), (''BN'', ''BENCH'')]"

subsection \<open>Sample upstream data\<close>

text \<open>
  An ESPN league with one team: a starting quarterback, a benched quarterback and a
  running back without statistics.
\<close>

definition sample_espn_teams :: "espn_team list" where
  "sample_espn_teams =
     [\<lparr> et_id = 7,
        roster_entries =
          [\<lparr> lineupSlotId = 0,
              playerPoolEntry =
                \<lparr> ep_id = 4040715, fullName = ''Jalen Hurts'', defaultPositionId = 1,
                  proTeamId = 21, ep_injuryStatus = ''ACTIVE'',
                  stats = Some [\<lparr> statSourceId = 0, statSplitTypeId = 1, appliedTotal = Some 18 \<rparr>,
                                \<lparr> statSourceId = 1, statSplitTypeId = 1, appliedTotal = Some 21 \<rparr>] \<rparr> \<rparr>,
           \<lparr> lineupSlotId = 20,
              playerPoolEntry =
                \<lparr> ep_id = 3929630, fullName = ''Kyler Murray'', defaultPositionId = 1,
                  proTeamId = 22, ep_injuryStatus = ''QUESTIONABLE'',
                  stats = Some [\<lparr> statSourceId = 1, statSplitTypeId = 1, appliedTotal = Some 17 \<rparr>] \<rparr> \<rparr>,
           \<lparr> lineupSlotId = 2,
              playerPoolEntry =
                \<lparr> ep_id = 4430737, fullName = ''Kyren Williams'', defaultPositionId = 2,
                  proTeamId = 14, ep_injuryStatus = ''ACTIVE'', stats = None \<rparr> \<rparr>] \<rparr>]"

text \<open>A Yahoo roster with two starting running backs and a benched tight end between them.\<close>

definition sample_yahoo_first :: yahoo_player where
  "sample_yahoo_first =
     \<lparr> yp_player_id = ''100'', name_full = ''Christian McCaffrey'', display_position = ''RB'',
       selected_position = ''RB'', editorial_team_abbr = ''SF'', yp_injury_status = '''',
       projected_points_total = Some 16, points_total = None \<rparr>"

definition sample_yahoo_bench :: yahoo_player where
  "sample_yahoo_bench =
     \<lparr> yp_player_id = ''101'', name_full = ''Mark Andrews'', display_position = ''TE'',
       selected_position = ''BN'', editorial_team_abbr = ''BAL'', yp_injury_status = ''Q'',
       projected_points_total = Some 7, points_total = None \<rparr>"

definition sample_yahoo_last :: yahoo_player where
  "sample_yahoo_last =
     \<lparr> yp_player_id = ''102'', name_full = ''Jonathan Taylor'', display_position = ''RB'',
       selected_position = ''RB'', editorial_team_abbr = ''IND'', yp_injury_status = '''',
       projected_points_total = Some 14, points_total = None \<rparr>"

text \<open>A Sleeper league: one matchup with a quarterback starting and a defence past the ninth starter.\<close>

definition sample_sleeper_players :: "string \<Rightarrow> sleeper_player option" where
  "sample_sleeper_players playerId =
     (if playerId = ''4984''
      then Some \<lparr> full_name = ''Josh Allen'', sp_position = ''QB'', sp_team = ''BUF'',
                  sp_injury_status = '''' \<rparr>
      else if playerId = ''DET''
      then Some \<lparr> full_name = ''Lions'', sp_position = ''DEF'', sp_team = ''DET'',
                  sp_injury_status = '''' \<rparr>
      else None)"

definition sample_sleeper_upstream :: sleeper_upstream where
  "sample_sleeper_upstream =
     \<lparr> rosters = Inr [''1'', ''2''],
       league = Inr (),
       matchups =
         Inr [\<lparr> m_roster_id = ''1'',
                 starters = [''4984'', ''0'', ''0'', ''0'', ''0'', ''0'', ''0'', ''0'', ''0'', ''DET''],
                 starters_points = [24, 0, 0, 0, 0, 0, 0, 0, 0, 0] \<rparr>],
       allPlayers = Inr sample_sleeper_players \<rparr>"

section \<open>Properties of the mapping tables\<close>

lemma lookup_literal_own:
  "key \<notin> set object_prototype_names \<Longrightarrow>
     lookup_literal table key = map_option Str (map_of table key)"
  by (simp add: lookup_literal_def split: option.splits)

lemma lookup_literal_Str:
  "lookup_literal table key = Some (Str v) \<Longrightarrow> map_of table key = Some v"
  by (auto simp: lookup_literal_def split: option.splits if_splits)

lemma lookup_literal_Inherited:
  "lookup_literal table key = Some (Inherited k) \<Longrightarrow>
     k = key \<and> key \<in> set object_prototype_names"
  by (auto simp: lookup_literal_def split: option.splits if_splits)

lemma js_or_null_Some: "js_or_null a = Some v \<Longrightarrow> a = Some v"
  by (auto simp: js_or_null_def split: option.splits if_splits)

subsection \<open>Positions\<close>

lemma mapESPNPosition_range:
  "mapESPNPosition pid \<in> {''QB'', ''RB'', ''WR'', ''TE'', ''K'', ''DEF'', ''UNKNOWN''}"
  by (simp add: mapESPNPosition_def)

lemma mapESPNPosition_unmapped:
  "pid \<notin> {1, 2, 3, 4, 5, 16} \<Longrightarrow> mapESPNPosition pid = ''UNKNOWN''"
  by (simp add: mapESPNPosition_def)

lemma mapESPNPosition_mapped:
  "pid \<in> {1, 2, 3, 4, 5, 16} \<Longrightarrow> mapESPNPosition pid \<in> canonical_positions - {''FLEX''}"
  by (auto simp add: mapESPNPosition_def canonical_positions_def)

lemma mapYahooPosition_own:
  "s \<notin> set object_prototype_names \<Longrightarrow> mapYahooPosition s = Str s"
  by (auto simp add: mapYahooPosition_def js_or_def lookup_literal_own)

lemma mapSleeperPosition_own:
  "s \<notin> set object_prototype_names \<Longrightarrow> mapSleeperPosition s = Str s"
  by (auto simp add: mapSleeperPosition_def js_or_def lookup_literal_own)

lemma position_keys_own:
  "s \<in> {''QB'', ''RB'', ''WR'', ''TE'', ''K'', ''DEF''} \<Longrightarrow>
     s \<notin> set object_prototype_names \<and> s \<in> canonical_positions"
  by (auto simp: object_prototype_names_def canonical_positions_def)

text \<open>
  Claim C2, as stated: each of the three position tables sends every input into
  \<open>{QB, RB, WR, TE, K, DEF, FLEX}\<close>, and a value absent from the table is never handed on
  unmodified. It fails at the ESPN position id 99, which becomes \<^verbatim>\<open>UNKNOWN\<close>, and at the
  Yahoo and Sleeper position \<^verbatim>\<open>LB\<close>, which both tables return as it came.
\<close>

theorem position_tables_unmapped_counterexample:
  "mapESPNPosition 99 = ''UNKNOWN'' \<and> ''UNKNOWN'' \<notin> canonical_positions
   \<and> mapYahooPosition ''LB'' = Str ''LB'' \<and> mapSleeperPosition ''LB'' = Str ''LB''
   \<and> ''LB'' \<notin> canonical_positions"
  by (simp add: mapESPNPosition_def mapYahooPosition_def mapSleeperPosition_def js_or_def
      lookup_literal_def object_prototype_names_def canonical_positions_def)

text \<open>
  Claim C2, amended: each table sends its own six keys to the canonical positions
  \<open>QB, RB, WR, TE, K, DEF\<close> (never to \<open>FLEX\<close>). Every other ESPN position id becomes the
  placeholder \<^verbatim>\<open>UNKNOWN\<close>. The Yahoo and the Sleeper table return every other string
  unchanged, provided it is not the name of a member inherited from \<^verbatim>\<open>Object.prototype\<close>.
\<close>

theorem position_tables_keys_canonical:
  "(pid \<in> {1, 2, 3, 4, 5, 16} \<longrightarrow> mapESPNPosition pid \<in> canonical_positions - {''FLEX''})
   \<and> (pid \<notin> {1, 2, 3, 4, 5, 16} \<longrightarrow> mapESPNPosition pid = ''UNKNOWN'')
   \<and> (s \<in> {''QB'', ''RB'', ''WR'', ''TE'', ''K'', ''DEF''} \<longrightarrow>
        mapYahooPosition s = Str s \<and> mapSleeperPosition s = Str s \<and> s \<in> canonical_positions - {''FLEX''})
   \<and> (s \<notin> {''QB'', ''RB'', ''WR'', ''TE'', ''K'', ''DEF''} \<longrightarrow> s \<notin> set object_prototype_names \<longrightarrow>
        mapYahooPosition s = Str s \<and> mapSleeperPosition s = Str s)"
proof -
  have espn_mapped:
    "pid \<in> {1, 2, 3, 4, 5, 16} \<longrightarrow> mapESPNPosition pid \<in> canonical_positions - {''FLEX''}"
    by (rule impI) (rule mapESPNPosition_mapped)
  have espn_unmapped: "pid \<notin> {1, 2, 3, 4, 5, 16} \<longrightarrow> mapESPNPosition pid = ''UNKNOWN''"
    by (rule impI) (rule mapESPNPosition_unmapped)
  have keys: "s \<in> {''QB'', ''RB'', ''WR'', ''TE'', ''K'', ''DEF''} \<longrightarrow>
        mapYahooPosition s = Str s \<and> mapSleeperPosition s = Str s \<and> s \<in> canonical_positions - {''FLEX''}"
  proof
    assume k: "s \<in> {''QB'', ''RB'', ''WR'', ''TE'', ''K'', ''DEF''}"
    from position_keys_own [OF k] have own: "s \<notin> set object_prototype_names"
      and can: "s \<in> canonical_positions" by simp_all
    from k have "s \<noteq> ''FLEX''" by auto
    with own can show "mapYahooPosition s = Str s \<and> mapSleeperPosition s = Str s
        \<and> s \<in> canonical_positions - {''FLEX''}"
      by (simp add: mapYahooPosition_own mapSleeperPosition_own)
  qed
  have others: "s \<notin> {''QB'', ''RB'', ''WR'', ''TE'', ''K'', ''DEF''} \<longrightarrow>
        s \<notin> set object_prototype_names \<longrightarrow> mapYahooPosition s = Str s \<and> mapSleeperPosition s = Str s"
    by (intro impI conjI) (rule mapYahooPosition_own, assumption, rule mapSleeperPosition_own, assumption)
  from espn_mapped espn_unmapped keys others show ?thesis by (intro conjI)
qed

theorem position_tables_keys_canonical_witness:
  "mapESPNPosition 16 \<in> canonical_positions - {''FLEX''}
   \<and> mapESPNPosition 99 = ''UNKNOWN''
   \<and> mapYahooPosition ''TE'' = Str ''TE'' \<and> mapSleeperPosition ''TE'' = Str ''TE''
   \<and> ''TE'' \<in> canonical_positions - {''FLEX''}
   \<and> mapYahooPosition ''LB'' = Str ''LB'' \<and> mapSleeperPosition ''LB'' = Str ''LB''"
  using position_tables_keys_canonical [of 16 "''TE''"]
    position_tables_keys_canonical [of 99 "''LB''"]
  by (simp add: object_prototype_names_def)

subsection \<open>Injury statuses\<close>

lemma injury_status_own:
  assumes "s \<notin> set object_prototype_names"
  shows "mapESPNInjuryStatus s \<in> Str ` canonical_statuses"
    and "mapYahooInjuryStatus s \<in> Str ` canonical_statuses"
    and "mapSleeperInjuryStatus s \<in> Str ` canonical_statuses"
  using assms
  by (auto simp add: mapESPNInjuryStatus_def mapYahooInjuryStatus_def mapSleeperInjuryStatus_def
      js_or_def lookup_literal_own canonical_statuses_def)

lemma injury_status_default:
  assumes "s \<notin> set object_prototype_names"
  shows "s \<notin> {''ACTIVE'', ''QUESTIONABLE'', ''DOUBTFUL'', ''OUT''} \<Longrightarrow>
           mapESPNInjuryStatus s = Str ''healthy''"
    and "s \<notin> {'''', ''Q'', ''D'', ''O''} \<Longrightarrow> mapYahooInjuryStatus s = Str ''healthy''"
    and "s \<notin> {'''', ''Questionable'', ''Doubtful'', ''Out''} \<Longrightarrow>
           mapSleeperInjuryStatus s = Str ''healthy''"
  using assms
  by (auto simp add: mapESPNInjuryStatus_def mapYahooInjuryStatus_def mapSleeperInjuryStatus_def
      js_or_def lookup_literal_own)

text \<open>
  Claim C6: every input string is mapped to one of \<open>healthy, questionable, doubtful, out\<close>,
  and every string outside the table's keys to \<open>healthy\<close>. The three functions do so for
  every string that is not the name of a member of \<^verbatim>\<open>Object.prototype\<close>
  (\<open>injury_status_own\<close>, \<open>injury_status_default\<close>). For such a name the table read finds
  the inherited member, which is truthy, so the \<^verbatim>\<open>|| 'healthy'\<close> default is not taken and
  the function returns the member itself, which is no status at all: at the input
  \<^verbatim>\<open>constructor\<close> each of the three returns the \<^verbatim>\<open>Object\<close> function.
\<close>

theorem injury_status_inherited_name:
  "mapESPNInjuryStatus ''constructor'' = Inherited ''constructor''
   \<and> mapYahooInjuryStatus ''constructor'' = Inherited ''constructor''
   \<and> mapSleeperInjuryStatus ''constructor'' = Inherited ''constructor''
   \<and> Inherited ''constructor'' \<notin> Str ` canonical_statuses"
  by (auto simp add: mapESPNInjuryStatus_def mapYahooInjuryStatus_def mapSleeperInjuryStatus_def
      js_or_def lookup_literal_def object_prototype_names_def)

section \<open>Properties of the lineups\<close>

subsection \<open>The sum the adapters compute\<close>

lemma foldl_plus_sum_list:
  "foldl (\<lambda>sum v. sum + f v) a xs = a + sum_list (map f xs)" for a :: real
  by (induction xs arbitrary: a) (simp_all add: add.assoc)

lemma sumProjected_sum_list:
  "sumProjected ps =
     sum_list (map (\<lambda>kv. if isArray (snd kv) then 0 else num_or_zero (projected_of (snd kv))) ps)"
  unfolding sumProjected_def foldl_plus_sum_list
  by (induction ps) simp_all

lemma spec_totalProjected_sum_list:
  "spec_totalProjected ps =
     sum_list (map (\<lambda>kv. if fst kv = ''BENCH'' then 0
                          else sum_list (map (\<lambda>p. num_or_zero (projectedPoints p))
                                 (slot_players (snd kv)))) ps)"
  unfolding spec_totalProjected_def starting_players_def
  by (induction ps) simp_all

lemma bench_typed_total:
  "bench_typed ps \<Longrightarrow> sumProjected ps = spec_totalProjected ps"
  unfolding sumProjected_sum_list spec_totalProjected_sum_list bench_typed_def
proof (induction ps)
  case Nil
  then show ?case by simp
next
  case (Cons kv ps)
  then show ?case by (cases "snd kv") auto
qed

text \<open>Assignments to the object.\<close>

lemma set_update_subset:
  "set (AList.update k v ps) \<subseteq> insert (k, v) (set ps)"
  by (induction ps) auto

lemma set_update_distinct:
  "distinct (map fst ps) \<Longrightarrow>
     set (AList.update k v ps) = insert (k, v) {kv \<in> set ps. fst kv \<noteq> k}"
  by (induction ps) (auto simp: rev_image_eqI)

lemma starters_only_update:
  "starters_only ps \<Longrightarrow> k \<noteq> ''BENCH'' \<Longrightarrow> starters_only (AList.update k (One p) ps)"
  using set_update_subset [of k "One p" ps]
  by (auto simp: starters_only_def list_all_iff)

lemma starters_only_bench:
  "starters_only ps \<Longrightarrow> bench_typed (AList.update ''BENCH'' (Many bs) ps)"
  using set_update_subset [of "''BENCH''" "Many bs" ps]
  by (auto simp: starters_only_def bench_typed_def list_all_iff)

lemma starters_only_typed: "starters_only ps \<Longrightarrow> bench_typed ps"
  by (auto simp: starters_only_def bench_typed_def list_all_iff)

subsection \<open>ESPN and Sleeper: the bench never enters the loop\<close>

lemma espn_place_starters: "starters_only ps \<Longrightarrow> starters_only (espn_place ps e)"
  by (auto simp: espn_place_def starters_only_update split: option.splits)

lemma espn_foldl_starters: "starters_only ps \<Longrightarrow> starters_only (foldl espn_place ps es)"
  by (induction es arbitrary: ps) (simp_all add: espn_place_starters)

lemma espn_players_typed: "bench_typed (espn_players roster)"
proof -
  have "starters_only (foldl espn_place [] roster)"
    by (rule espn_foldl_starters) (simp add: starters_only_def)
  then show ?thesis
    by (simp add: espn_players_def Let_def starters_only_bench starters_only_typed)
qed

lemma sleeper_place_starters:
  "starters_only ps \<Longrightarrow> fst slot \<in> set lineupPositions \<Longrightarrow>
     starters_only (sleeper_place allP m ps slot)"
  by (auto simp: sleeper_place_def lineupPositions_def intro!: starters_only_update
      split: option.splits)

lemma sleeper_foldl_starters:
  "starters_only ps \<Longrightarrow> fst ` set slots \<subseteq> set lineupPositions \<Longrightarrow>
     starters_only (foldl (sleeper_place allP m) ps slots)"
  by (induction slots arbitrary: ps) (simp_all add: sleeper_place_starters)

lemma sleeper_players_typed: "bench_typed (sleeper_players allP found)"
proof (cases found)
  case None
  then show ?thesis by (simp add: sleeper_players_def bench_typed_def)
next
  case (Some m)
  have "starters_only (foldl (sleeper_place allP m) []
          (zip lineupPositions [0 ..< length lineupPositions]))"
    by (rule sleeper_foldl_starters) (auto simp: starters_only_def dest: set_zip_leftD)
  with Some show ?thesis
    by (simp add: sleeper_players_def Let_def starters_only_bench starters_only_typed)
qed

subsection \<open>Yahoo: a benched entry is written under \<^verbatim>\<open>BENCH\<close> and then overwritten\<close>

lemma yahoo_slot_table_values:
  "map_of yahoo_slot_table s = Some v \<Longrightarrow>
     (v = ''BENCH'') = (s = ''BN'') \<and> (v = ''RB1'') = (s = ''RB'') \<and> (v = ''WR1'') = (s = ''WR'')
     \<and> v \<noteq> ''RB2'' \<and> v \<noteq> ''WR2''"
  by (auto simp: yahoo_slot_table_def split: if_splits)

lemma property_key_inherited_not_slot:
  "property_key (Inherited k) \<notin> {''BENCH'', ''RB1'', ''WR1'', ''RB2'', ''WR2''}"
  by (simp add: property_key_def)

lemma mapYahooLineupPosition_cases:
  assumes "mapYahooLineupPosition s = Some lp"
  obtains (own) v where "lp = Str v" "map_of yahoo_slot_table s = Some v"
    | (inherited) "lp = Inherited s" "s \<in> set object_prototype_names"
proof -
  from assms have l: "lookup_literal yahoo_slot_table s = Some lp"
    unfolding mapYahooLineupPosition_def yahoo_slot_table_def by (rule js_or_null_Some)
  show thesis
  proof (cases lp)
    case (Str v)
    with l show ?thesis by (auto intro: own dest: lookup_literal_Str)
  next
    case (Inherited k)
    with l show ?thesis by (auto intro: inherited dest: lookup_literal_Inherited)
  qed
qed

lemma yahoo_slot_cases:
  assumes "yahoo_slot e = Some k"
  obtains (own) "map_of yahoo_slot_table (selected_position e) = Some k"
    | (inherited) "k = property_key (Inherited (selected_position e))"
        "selected_position e \<in> set object_prototype_names"
proof -
  from assms obtain lp where lp: "mapYahooLineupPosition (selected_position e) = Some lp"
    "k = property_key lp"
    by (auto simp: yahoo_slot_def split: option.splits if_splits)
  from lp(1) show thesis
  proof (cases rule: mapYahooLineupPosition_cases)
    case (own v)
    with lp(2) show ?thesis by (auto intro: that(1) simp: property_key_def)
  next
    case inherited
    with lp(2) show ?thesis by (auto intro: that(2))
  qed
qed

lemma yahoo_slot_bench:
  assumes "yahoo_slot e = Some ''BENCH''"
  shows "selected_position e = ''BN''"
  using assms
proof (cases rule: yahoo_slot_cases)
  case own
  from yahoo_slot_table_values [OF own] show ?thesis by simp
next
  case inherited
  with property_key_inherited_not_slot [of "selected_position e"] show ?thesis by simp
qed

lemma yahoo_place_slot:
  "yahoo_place ps e =
     (case yahoo_slot e of Some k \<Rightarrow> AList.update k (One (yahoo_player_of e)) ps | None \<Rightarrow> ps)"
  by (simp add: yahoo_place_def yahoo_slot_def split: option.splits)

lemma yahoo_place_single: "all_single ps \<Longrightarrow> all_single (yahoo_place ps e)"
  using set_update_subset
  by (fastforce simp: yahoo_place_slot all_single_def list_all_iff split: option.splits)

lemma yahoo_place_distinct: "distinct (map fst ps) \<Longrightarrow> distinct (map fst (yahoo_place ps e))"
  by (auto simp: yahoo_place_slot distinct_update split: option.splits)

lemma yahoo_place_bench:
  assumes "''BENCH'' \<in> fst ` set (yahoo_place ps e)"
  shows "''BENCH'' \<in> fst ` set ps \<or> selected_position e = ''BN''"
proof (cases "yahoo_slot e")
  case None
  with assms show ?thesis by (simp add: yahoo_place_slot)
next
  case (Some k)
  with assms have "k = ''BENCH'' \<or> ''BENCH'' \<in> fst ` set ps"
    by (auto simp: yahoo_place_slot dom_update)
  with Some yahoo_slot_bench [of e] show ?thesis by auto
qed

lemma yahoo_foldl_inv:
  "all_single ps \<Longrightarrow> distinct (map fst ps) \<Longrightarrow>
     all_single (foldl yahoo_place ps es) \<and> distinct (map fst (foldl yahoo_place ps es))
     \<and> (''BENCH'' \<in> fst ` set (foldl yahoo_place ps es) \<longrightarrow>
          ''BENCH'' \<in> fst ` set ps \<or> (\<exists>e \<in> set es. selected_position e = ''BN''))"
proof (induction es arbitrary: ps)
  case Nil
  then show ?case by simp
next
  case (Cons e es)
  from Cons.IH [OF yahoo_place_single [OF Cons.prems(1)] yahoo_place_distinct [OF Cons.prems(2)],
      of e]
  show ?case using yahoo_place_bench [of ps e] by auto
qed

lemma yahoo_players_typed: "bench_typed (yahoo_players roster)"
proof -
  let ?ps = "foldl yahoo_place [] roster"
  have inv: "all_single ?ps" "distinct (map fst ?ps)"
    "''BENCH'' \<in> fst ` set ?ps \<longrightarrow> (\<exists>e \<in> set roster. selected_position e = ''BN'')"
    using yahoo_foldl_inv [of "[]" roster] by (simp_all add: all_single_def)
  show ?thesis
  proof (cases "\<exists>e \<in> set roster. selected_position e = ''BN''")
    case True
    then have ne: "filter (\<lambda>p. selected_position p = ''BN'') roster \<noteq> []"
      by (simp add: filter_empty_conv)
    have "bench_typed (AList.update ''BENCH'' (Many bs) ?ps)" for bs
      using inv(1) unfolding bench_typed_def all_single_def list_all_iff
        set_update_distinct [OF inv(2)] by auto
    with ne show ?thesis by (simp add: yahoo_players_def Let_def)
  next
    case False
    then have e: "filter (\<lambda>p. selected_position p = ''BN'') roster = []"
      by (simp add: filter_empty_conv)
    from False inv(3) have "''BENCH'' \<notin> fst ` set ?ps" by blast
    with inv(1) have "bench_typed ?ps"
      unfolding bench_typed_def all_single_def list_all_iff by force
    with e show ?thesis by (simp add: yahoo_players_def Let_def)
  qed
qed

subsection \<open>What the three adapters return on the sample data\<close>

lemmas lineup_eval =
  nat_toString.simps digit_char_def int_toString_def Let_def
  espn_getTeamLineup_def espn_getTeamLineup_try_def espn_players_def espn_place_def
  espn_player_of_def mapESPNLineupPosition_def mapESPNPosition_def mapESPNTeam_def
  mapESPNInjuryStatus_def stat_total_def js_or_def js_or_null_def lookup_literal_def
  property_key_def sumProjected_def num_or_zero_def
  yahoo_getTeamLineup_def yahoo_players_def yahoo_place_def yahoo_player_of_def
  mapYahooPosition_def mapYahooLineupPosition_def mapYahooInjuryStatus_def
  sleeper_getTeamLineup_def sleeper_getTeamLineup_try_def sleeper_players_def sleeper_place_def
  sleeper_starter_def sleeper_bench_player_def mapSleeperPosition_def mapSleeperInjuryStatus_def
  lineupPositions_def at_index_def map_filter_def

lemma sample_espn_lineup:
  "\<exists>l. espn_getTeamLineup (Inr sample_espn_teams) ''45107891'' ''7'' 3 = Inr l
       \<and> totalProjectedPoints l = 21 \<and> map fst (players l) = [''QB'', ''RB2'', ''BENCH'']"
  by (simp add: sample_espn_teams_def lineup_eval)

lemma sample_yahoo_lineup:
  "\<exists>l. yahoo_getTeamLineup (Inr [sample_yahoo_first, sample_yahoo_bench, sample_yahoo_last])
          ''223.l.431'' ''3'' 5 = Inr l
       \<and> totalProjectedPoints l = 14 \<and> map fst (players l) = [''RB1'', ''BENCH'']"
  by (simp add: sample_yahoo_first_def sample_yahoo_bench_def sample_yahoo_last_def lineup_eval)


lemma sample_sleeper_lineup:
  "\<exists>l. sleeper_getTeamLineup sample_sleeper_upstream ''123456789'' ''1'' 8 = Inr l
       \<and> totalProjectedPoints l = 0 \<and> map fst (players l) = [''QB'', ''BENCH'']"
  by (simp add: sample_sleeper_upstream_def sample_sleeper_players_def lineup_eval upt_rec)

subsection \<open>The total is the sum over the starting slots\<close>

text \<open>
  Claim C1: for each of the three adapters, the lineup that \<^verbatim>\<open>getTeamLineup\<close> returns has
  \<^verbatim>\<open>totalProjectedPoints\<close> equal to the sum of \<^verbatim>\<open>projectedPoints\<close> (a missing value counting
  as 0) over exactly the players of the starting slots. The code leaves out the arrays of
  the object, not the key \<^verbatim>\<open>BENCH\<close>; the two agree because in every lineup returned the
  arrays are exactly the values under \<^verbatim>\<open>BENCH\<close>.
\<close>

theorem lineup_total_is_starting_slot_sum:
  "(espn_getTeamLineup espnResponse leagueId tid wk = Inr l \<longrightarrow>
      totalProjectedPoints l = spec_totalProjected (players l) \<and> bench_typed (players l))
   \<and> (yahoo_getTeamLineup yahooResponse leagueId tid wk = Inr l \<longrightarrow>
      totalProjectedPoints l = spec_totalProjected (players l) \<and> bench_typed (players l))
   \<and> (sleeper_getTeamLineup sleeperUpstream leagueId tid wk = Inr l \<longrightarrow>
      totalProjectedPoints l = spec_totalProjected (players l) \<and> bench_typed (players l))"
proof (intro conjI impI)
  assume "espn_getTeamLineup espnResponse leagueId tid wk = Inr l"
  then obtain roster where l: "players l = espn_players roster"
      "totalProjectedPoints l = sumProjected (espn_players roster)"
    by (auto simp: espn_getTeamLineup_def espn_getTeamLineup_try_def Let_def
        split: sum.splits option.splits)
  show "totalProjectedPoints l = spec_totalProjected (players l)"
    by (simp add: l bench_typed_total espn_players_typed)
  show "bench_typed (players l)" by (simp add: l espn_players_typed)
next
  assume "yahoo_getTeamLineup yahooResponse leagueId tid wk = Inr l"
  then obtain roster where l: "players l = yahoo_players roster"
      "totalProjectedPoints l = sumProjected (yahoo_players roster)"
    by (auto simp: yahoo_getTeamLineup_def Let_def split: sum.splits)
  show "totalProjectedPoints l = spec_totalProjected (players l)"
    by (simp add: l bench_typed_total yahoo_players_typed)
  show "bench_typed (players l)" by (simp add: l yahoo_players_typed)
next
  assume "sleeper_getTeamLineup sleeperUpstream leagueId tid wk = Inr l"
  then obtain allP found where l: "players l = sleeper_players allP found"
     "totalProjectedPoints l = sumProjected (sleeper_players allP found)"
    by (auto simp: sleeper_getTeamLineup_def sleeper_getTeamLineup_try_def Let_def
        split: sum.splits option.splits)
  show "totalProjectedPoints l = spec_totalProjected (players l)"
    by (simp add: l bench_typed_total sleeper_players_typed)
  show "bench_typed (players l)" by (simp add: l sleeper_players_typed)
qed

theorem lineup_total_is_starting_slot_sum_witness:
  "(\<exists>l. espn_getTeamLineup (Inr sample_espn_teams) ''45107891'' ''7'' 3 = Inr l
        \<and> totalProjectedPoints l = spec_totalProjected (players l) \<and> totalProjectedPoints l = 21)
   \<and> (\<exists>l. yahoo_getTeamLineup (Inr [sample_yahoo_first, sample_yahoo_bench, sample_yahoo_last])
             ''223.l.431'' ''3'' 5 = Inr l
        \<and> totalProjectedPoints l = spec_totalProjected (players l) \<and> totalProjectedPoints l = 14)
   \<and> (\<exists>l. sleeper_getTeamLineup sample_sleeper_upstream ''123456789'' ''1'' 8 = Inr l
        \<and> totalProjectedPoints l = spec_totalProjected (players l) \<and> totalProjectedPoints l = 0)"
proof -
  obtain l1 where l1: "espn_getTeamLineup (Inr sample_espn_teams) ''45107891'' ''7'' 3 = Inr l1"
    "totalProjectedPoints l1 = 21"
    using sample_espn_lineup by blast
  obtain l2 where l2:
    "yahoo_getTeamLineup (Inr [sample_yahoo_first, sample_yahoo_bench, sample_yahoo_last])
       ''223.l.431'' ''3'' 5 = Inr l2"
    "totalProjectedPoints l2 = 14"
    using sample_yahoo_lineup by blast
  obtain l3 where l3: "sleeper_getTeamLineup sample_sleeper_upstream ''123456789'' ''1'' 8 = Inr l3"
    "totalProjectedPoints l3 = 0"
    using sample_sleeper_lineup by blast
  from l1 l2 l3
    lineup_total_is_starting_slot_sum [of "Inr sample_espn_teams" "''45107891''" "''7''" 3 l1]
    lineup_total_is_starting_slot_sum
      [of _ "''223.l.431''" "''3''" 5 l2
          "Inr [sample_yahoo_first, sample_yahoo_bench, sample_yahoo_last]"]
    lineup_total_is_starting_slot_sum
      [of _ "''123456789''" "''1''" 8 l3 _ sample_sleeper_upstream]
  show ?thesis by metis
qed

subsection \<open>Yahoo: one slot for all starting running backs, one for all wide receivers\<close>

















subsection \<open>Sleeper: every projection is 0\<close>

lemma zero_projected_update:
  assumes "zero_projected ps" "list_all (\<lambda>p. projectedPoints p = Some 0) (slot_players v)"
  shows "zero_projected (AList.update k v ps)"
  using assms set_update_subset [of k v ps]
  unfolding zero_projected_def all_players_def list_all_iff by fastforce

lemma sleeper_place_zero: "zero_projected ps \<Longrightarrow> zero_projected (sleeper_place allP m ps slot)"
  by (auto simp: sleeper_place_def sleeper_starter_def intro!: zero_projected_update
      split: option.splits)

lemma sleeper_foldl_zero:
  "zero_projected ps \<Longrightarrow> zero_projected (foldl (sleeper_place allP m) ps slots)"
  by (induction slots arbitrary: ps) (simp_all add: sleeper_place_zero)

lemma sleeper_bench_zero:
  "list_all (\<lambda>p. projectedPoints p = Some 0)
     (List.map_filter (\<lambda>playerId. map_option (sleeper_bench_player playerId) (allP playerId)) ids)"
  by (auto simp: list_all_iff map_filter_def sleeper_bench_player_def)

lemma sleeper_players_zero: "zero_projected (sleeper_players allP found)"
proof (cases found)
  case None
  then show ?thesis by (simp add: sleeper_players_def zero_projected_def all_players_def)
next
  case (Some m)
  have "zero_projected (foldl (sleeper_place allP m) []
          (zip lineupPositions [0 ..< length lineupPositions]))"
    by (rule sleeper_foldl_zero) (simp add: zero_projected_def all_players_def)
  with Some show ?thesis
    by (simp add: sleeper_players_def Let_def zero_projected_update sleeper_bench_zero)
qed

lemma zero_projected_sum: "zero_projected ps \<Longrightarrow> sumProjected ps = 0"
  unfolding sumProjected_sum_list zero_projected_def all_players_def
proof (induction ps)
  case Nil
  then show ?case by simp
next
  case (Cons kv ps)
  then show ?case by (cases "snd kv") (auto simp: num_or_zero_def)
qed

text \<open>
  Claim C10: the Sleeper adapter gives every player it builds, starter or bench, the
  projection 0, so every lineup its \<^verbatim>\<open>getTeamLineup\<close> returns has \<^verbatim>\<open>totalProjectedPoints\<close> 0.
\<close>

theorem sleeper_total_projected_zero:
  assumes "sleeper_getTeamLineup sleeperUpstream leagueId tid wk = Inr l"
  shows "totalProjectedPoints l = 0
       \<and> list_all (\<lambda>p. projectedPoints p = Some 0) (all_players (players l))"
proof -
  from assms obtain allP found where l: "players l = sleeper_players allP found"
     "totalProjectedPoints l = sumProjected (sleeper_players allP found)"
    by (auto simp: sleeper_getTeamLineup_def sleeper_getTeamLineup_try_def Let_def
        split: sum.splits option.splits)
  show ?thesis using sleeper_players_zero [of allP found]
    by (simp add: l zero_projected_sum) (simp add: zero_projected_def)
qed

theorem sleeper_total_projected_zero_witness:
  "\<exists>l. sleeper_getTeamLineup sample_sleeper_upstream ''123456789'' ''1'' 8 = Inr l
       \<and> map fst (players l) = [''QB'', ''BENCH'']
       \<and> totalProjectedPoints l = 0
       \<and> list_all (\<lambda>p. projectedPoints p = Some 0) (all_players (players l))"
proof -
  obtain l where l: "sleeper_getTeamLineup sample_sleeper_upstream ''123456789'' ''1'' 8 = Inr l"
    "map fst (players l) = [''QB'', ''BENCH'']"
    using sample_sleeper_lineup by (elim exE conjE)
  from sleeper_total_projected_zero [OF l(1)] l show ?thesis by (intro exI [of _ l]) simp
qed

section \<open>Properties of the ESPN session and of the page parser\<close>

subsection \<open>The session\<close>

lemma isAuthenticated_no_session:
  "authSession st = None \<Longrightarrow> isAuthenticated now st = (False, st)"
  by (simp add: isAuthenticated_def)

lemma isAuthenticated_expired:
  "authSession st = Some s \<Longrightarrow> expiresAt s < now \<Longrightarrow>
     isAuthenticated now st = (False, clearSession st)"
  by (simp add: isAuthenticated_def)

lemma isAuthenticated_valid:
  "authSession st = Some s \<Longrightarrow> now \<le> expiresAt s \<Longrightarrow>
     isAuthenticated now st = (sess_isAuthenticated s, st)"
  by (simp add: isAuthenticated_def)

lemma clearSession_fields:
  "authSession (clearSession st) = None"
  "map_of (localStorage (clearSession st)) ''espn_auth_session'' = None"
  "effects (clearSession st) = effects st @ [StorageRemove ''espn_auth_session'']"
  by (simp_all add: clearSession_def delete_conv)

text \<open>
  Claim C8: when the session's \<^verbatim>\<open>expiresAt\<close> lies in the past, \<^verbatim>\<open>isAuthenticated()\<close> returns
  false, clears the session in memory and removes the entry from the storage; the
  removal happens once: a later call, at any time, returns false again and leaves the
  state, trace included, as it is.
\<close>

theorem expired_session_cleared_once:
  assumes "authSession st = Some s" and "expiresAt s < now"
  shows "fst (isAuthenticated now st) = False
     \<and> authSession (snd (isAuthenticated now st)) = None
     \<and> map_of (localStorage (snd (isAuthenticated now st))) ''espn_auth_session'' = None
     \<and> effects (snd (isAuthenticated now st)) = effects st @ [StorageRemove ''espn_auth_session'']
     \<and> isAuthenticated later (snd (isAuthenticated now st))
         = (False, snd (isAuthenticated now st))"
  using assms
  by (simp add: isAuthenticated_expired clearSession_fields isAuthenticated_no_session)

theorem expired_session_cleared_once_witness:
  "fst (isAuthenticated 2001 sample_service) = False
     \<and> authSession (snd (isAuthenticated 2001 sample_service)) = None
     \<and> map_of (localStorage (snd (isAuthenticated 2001 sample_service))) ''espn_auth_session''
         = None
     \<and> effects (snd (isAuthenticated 2001 sample_service)) = [StorageRemove ''espn_auth_session'']
     \<and> isAuthenticated 2002 (snd (isAuthenticated 2001 sample_service))
         = (False, snd (isAuthenticated 2001 sample_service))"
  using expired_session_cleared_once [of sample_service sample_session 2001 2002]
  by (simp add: sample_service_def sample_session_def)

text \<open>
  Claim C7: with no session, or with a session whose expiry lies in the past,
  \<^verbatim>\<open>getTeamFromUrl\<close> fails with the not-authenticated error, and it does so before any
  request: the trace grows by the removal of the expired session from the storage, if
  there was one, and by nothing else.
\<close>

theorem unauthenticated_fetch_fails_before_network:
  assumes "authSession st = None \<or> (\<exists>s. authSession st = Some s \<and> expiresAt s < now1)"
  shows "fst (getTeamFromUrl rt w now1 now2 teamUrl st)
           = Inl (Error ''Not authenticated with ESPN. Please log in first.'')
     \<and> effects (snd (getTeamFromUrl rt w now1 now2 teamUrl st))
           = effects st @ (case authSession st of
                             None \<Rightarrow> []
                           | Some s \<Rightarrow> [StorageRemove ''espn_auth_session''])"
  using assms
proof
  assume n: "authSession st = None"
  then show ?thesis
    by (simp add: getTeamFromUrl_def isAuthenticated_no_session)
next
  assume "\<exists>s. authSession st = Some s \<and> expiresAt s < now1"
  then obtain s where s: "authSession st = Some s" "expiresAt s < now1" by blast
  have "isAuthenticated now2 (clearSession st) = (False, clearSession st)"
    by (simp add: isAuthenticated_no_session clearSession_fields)
  with s show ?thesis
    by (simp add: getTeamFromUrl_def isAuthenticated_expired clearSession_fields)
qed

theorem unauthenticated_fetch_fails_before_network_witness:
  "fst (getTeamFromUrl sample_runtime (direct_web (Text sample_page)) 2001 2002 sample_url sample_service)
       = Inl (Error ''Not authenticated with ESPN. Please log in first.'')
   \<and> effects (snd (getTeamFromUrl sample_runtime (direct_web (Text sample_page)) 2001 2002 sample_url
                      sample_service))
       = [StorageRemove ''espn_auth_session'']
   \<and> fst (getTeamFromUrl sample_runtime (direct_web (Text sample_page)) 5 6 sample_url
             (sample_service \<lparr> authSession := None \<rparr>))
       = Inl (Error ''Not authenticated with ESPN. Please log in first.'')
   \<and> effects (snd (getTeamFromUrl sample_runtime (direct_web (Text sample_page)) 5 6 sample_url
                      (sample_service \<lparr> authSession := None \<rparr>))) = []"
  using unauthenticated_fetch_fails_before_network
      [of sample_service 2001 sample_runtime "direct_web (Text sample_page)" 2002 sample_url]
    unauthenticated_fetch_fails_before_network
      [of "sample_service \<lparr> authSession := None \<rparr>" 5 sample_runtime "direct_web (Text sample_page)" 6
          sample_url]
  by (simp add: sample_service_def sample_session_def)

subsection \<open>A login page in the response\<close>

text \<open>What the parser makes of the sample pages.\<close>

lemma sample_login_page_parsed:
  "parseTeamPage sample_runtime sample_login_page ''45107891'' ''7'' ''2025''
     = ScrapedTeam
         \<lparr> st_id = ''espn_7'', st_name = ''The login Lions'', st_platform = ''ESPN'',
           st_leagueId = ''45107891'', st_leagueName = ''ESPN League 45107891'',
           st_ownerId = ''current_user'', st_record = \<lparr> wins = 3, losses = 1, ties = 0 \<rparr>,
           st_season = Some 2025, st_isActive = True,
           st_lineup =
             \<lparr> sl_id = ''lineup_7'', sl_teamId = ''espn_7'', sl_week = 1,
               sl_players = [lions_player ''UNK''],
               sl_totalProjectedPoints = 0, sl_totalActualPoints = 0 \<rparr> \<rparr>"
  by code_simp

lemma sample_relay_fetch:
  "fetch_team_page (relay_web (Text sample_doctype_login_page))
         (teamPageUrl ''45107891'' ''7'' ''2025'') ''espn_s2=abc'' sample_service
       = (Inr (Text sample_doctype_login_page),
          sample_service \<lparr> effects :=
            [HttpGet ''https://cors-anywhere.herokuapp.com/https://fantasy.espn.com/football/team?leagueId=45107891&teamId=7&season=2025'',
             HttpGet ''https://api.allorigins.win/raw?url=https%3A%2F%2Ffantasy.espn.com%2Ffootball%2Fteam%3FleagueId%3D45107891%26teamId%3D7%26season%3D2025''] \<rparr>)"
  by code_simp

lemma direct_web_fetch:
  "fetch_team_page (direct_web d) url cookie st
     = (Inr d, st \<lparr> effects := effects st @ [HttpGet (''https://cors-anywhere.herokuapp.com/'' @ url)] \<rparr>)"
  by (simp add: fetch_team_page_def direct_web_def Let_def)

text \<open>
  The \<^verbatim>\<open>try\<close> block and the whole function, once the session is valid, the URL has both
  parameters and the request has been answered.
\<close>

lemma getTeamFromUrl_try_answered:
  assumes "authSession st = Some s"
    and "url_param w teamUrl ''leagueId'' = Some lid" "lid \<noteq> []"
    and "url_param w teamUrl ''teamId'' = Some t" "t \<noteq> []"
    and "fetch_team_page w (teamPageUrl lid t (season_of w teamUrl)) (cookies s) st = (Inr d, st')"
  shows "getTeamFromUrl_try rt w teamUrl st =
           (case d of
              NullData \<Rightarrow>
                (Inl (JsError ''TypeError'' ''Cannot read properties of null (reading 'length')''),
                 st')
            | ParsedData \<Rightarrow>
                (Inl (JsError ''TypeError'' ''response.data.substring is not a function''), st')
            | Text html \<Rightarrow>
                if includes_str html ''<!DOCTYPE''
                   \<and> (includes_str html ''login'' \<or> includes_str html ''signin'')
                then (Inl (Error ''Authentication failed - got login page instead of team data''),
                      st')
                else (Inr (parseTeamPage rt html lid t (season_of w teamUrl)), st'))"
  using assms by (simp add: getTeamFromUrl_try_def Let_def split: response_data.splits)

lemma getTeamFromUrl_authenticated:
  assumes "authSession st = Some s" "sess_isAuthenticated s"
    and "now1 \<le> expiresAt s" "now2 \<le> expiresAt s"
  shows "getTeamFromUrl rt w now1 now2 teamUrl st =
           (case getTeamFromUrl_try rt w teamUrl st of
              (Inr teamData, st3) \<Rightarrow> (Inr teamData, st3)
            | (Inl e, st3) \<Rightarrow>
                (Inr (MockTeam (createMockTeamData rt (url_param w teamUrl ''leagueId'')
                                  (url_param w teamUrl ''teamId'') (season_of w teamUrl))),
                 st3))"
proof -
  from assms have "isAuthenticated now1 st = (True, st)" "isAuthenticated now2 st = (True, st)"
    by (simp_all add: isAuthenticated_valid)
  then show ?thesis by (simp add: getTeamFromUrl_def)
qed

text \<open>
  Claim C5, as stated: whenever the fetched HTML contains \<^verbatim>\<open>login\<close>, \<^verbatim>\<open>getTeamFromUrl\<close>
  treats it as an authentication failure and does not parse it. It fails for a page
  without the upper-case marker \<^verbatim>\<open><!DOCTYPE\<close>: \<open>sample_login_page\<close> contains \<^verbatim>\<open>login\<close>, and with
  a valid session the function returns what \<^verbatim>\<open>parseTeamPage\<close> makes of that page, a team
  named after its title.
\<close>

theorem login_without_doctype_counterexample:
  "includes_str sample_login_page ''login''
   \<and> fst (getTeamFromUrl sample_runtime (direct_web (Text sample_login_page)) 1000 1001
            sample_url sample_service)
       = Inr (parseTeamPage sample_runtime sample_login_page ''45107891'' ''7'' ''2025'')
   \<and> parseTeamPage sample_runtime sample_login_page ''45107891'' ''7'' ''2025''
       = ScrapedTeam
         \<lparr> st_id = ''espn_7'', st_name = ''The login Lions'', st_platform = ''ESPN'',
           st_leagueId = ''45107891'', st_leagueName = ''ESPN League 45107891'',
           st_ownerId = ''current_user'', st_record = \<lparr> wins = 3, losses = 1, ties = 0 \<rparr>,
           st_season = Some 2025, st_isActive = True,
           st_lineup =
             \<lparr> sl_id = ''lineup_7'', sl_teamId = ''espn_7'', sl_week = 1,
               sl_players = [lions_player ''UNK''],
               sl_totalProjectedPoints = 0, sl_totalActualPoints = 0 \<rparr> \<rparr>"
  by code_simp

text \<open>
  Claim C5, amended: take a valid session, a team URL with both parameters and a request
  that has been answered; what \<^verbatim>\<open>getTeamFromUrl\<close> does depends on the data of the response
  as follows.

  \<^item> A string that contains \<^verbatim>\<open><!DOCTYPE\<close> and one of \<^verbatim>\<open>login\<close> and \<^verbatim>\<open>signin\<close>: the \<^verbatim>\<open>try\<close> block
    throws the authentication-failure error without parsing the string, the function's
    own \<^verbatim>\<open>catch\<close> replaces the error by the mock team, and that is what the caller receives.
  \<^item> A string that lacks \<^verbatim>\<open><!DOCTYPE\<close>, or that contains neither \<^verbatim>\<open>login\<close> nor \<^verbatim>\<open>signin\<close>: the
    caller receives what \<^verbatim>\<open>parseTeamPage\<close> makes of it. A string with \<^verbatim>\<open>login\<close> but without
    \<^verbatim>\<open><!DOCTYPE\<close> is of this kind.
  \<^item> No string (the client has parsed a JSON body into \<^verbatim>\<open>null\<close>, or into an object, an
    array, a number or a boolean): reading it as a string throws a \<^verbatim>\<open>TypeError\<close> in the
    \<^verbatim>\<open>try\<close> block, whatever the body contained, and the caller receives the mock team.
\<close>

theorem login_page_replaced_by_mock:
  assumes session: "authSession st = Some s" "sess_isAuthenticated s"
      "now1 \<le> expiresAt s" "now2 \<le> expiresAt s"
    and url: "url_param w teamUrl ''leagueId'' = Some lid" "lid \<noteq> []"
      "url_param w teamUrl ''teamId'' = Some t" "t \<noteq> []"
    and fetched: "fetch_team_page w (teamPageUrl lid t (season_of w teamUrl)) (cookies s) st
                    = (Inr d, st')"
  shows "(\<forall>html. d = Text html \<and> includes_str html ''<!DOCTYPE''
                 \<and> (includes_str html ''login'' \<or> includes_str html ''signin'')
            \<longrightarrow> getTeamFromUrl_try rt w teamUrl st
                  = (Inl (Error ''Authentication failed - got login page instead of team data''),
                     st')
              \<and> getTeamFromUrl rt w now1 now2 teamUrl st
                  = (Inr (MockTeam (createMockTeamData rt (Some lid) (Some t)
                                      (season_of w teamUrl))),
                     st'))
     \<and> (\<forall>html. d = Text html
                 \<and> (\<not> includes_str html ''<!DOCTYPE''
                    \<or> (\<not> includes_str html ''login'' \<and> \<not> includes_str html ''signin''))
            \<longrightarrow> getTeamFromUrl_try rt w teamUrl st
                  = (Inr (parseTeamPage rt html lid t (season_of w teamUrl)), st')
              \<and> getTeamFromUrl rt w now1 now2 teamUrl st
                  = (Inr (parseTeamPage rt html lid t (season_of w teamUrl)), st'))
     \<and> (d = NullData
            \<longrightarrow> getTeamFromUrl_try rt w teamUrl st
                  = (Inl (JsError ''TypeError''
                            ''Cannot read properties of null (reading 'length')''),
                     st')
              \<and> getTeamFromUrl rt w now1 now2 teamUrl st
                  = (Inr (MockTeam (createMockTeamData rt (Some lid) (Some t)
                                      (season_of w teamUrl))),
                     st'))
     \<and> (d = ParsedData
            \<longrightarrow> getTeamFromUrl_try rt w teamUrl st
                  = (Inl (JsError ''TypeError'' ''response.data.substring is not a function''),
                     st')
              \<and> getTeamFromUrl rt w now1 now2 teamUrl st
                  = (Inr (MockTeam (createMockTeamData rt (Some lid) (Some t)
                                      (season_of w teamUrl))),
                     st'))"
proof -
  note block = getTeamFromUrl_try_answered [OF session(1) url fetched, of rt]
  note whole = getTeamFromUrl_authenticated [OF session, of rt w teamUrl]
  show ?thesis
  proof (intro conjI allI impI)
    fix html
    assume "d = Text html \<and> includes_str html ''<!DOCTYPE''
              \<and> (includes_str html ''login'' \<or> includes_str html ''signin'')"
    with block
    show t1: "getTeamFromUrl_try rt w teamUrl st
           = (Inl (Error ''Authentication failed - got login page instead of team data''), st')"
      by auto
    show "getTeamFromUrl rt w now1 now2 teamUrl st
            = (Inr (MockTeam (createMockTeamData rt (Some lid) (Some t) (season_of w teamUrl))),
               st')"
      by (simp add: whole t1 url)
  next
    fix html
    assume "d = Text html
              \<and> (\<not> includes_str html ''<!DOCTYPE''
                 \<or> (\<not> includes_str html ''login'' \<and> \<not> includes_str html ''signin''))"
    with block
    show t2: "getTeamFromUrl_try rt w teamUrl st
           = (Inr (parseTeamPage rt html lid t (season_of w teamUrl)), st')"
      by auto
    show "getTeamFromUrl rt w now1 now2 teamUrl st
            = (Inr (parseTeamPage rt html lid t (season_of w teamUrl)), st')"
      by (simp add: whole t2)
  next
    assume "d = NullData"
    with block
    show t3: "getTeamFromUrl_try rt w teamUrl st
           = (Inl (JsError ''TypeError'' ''Cannot read properties of null (reading 'length')''),
              st')"
      by simp
    show "getTeamFromUrl rt w now1 now2 teamUrl st
            = (Inr (MockTeam (createMockTeamData rt (Some lid) (Some t) (season_of w teamUrl))),
               st')"
      by (simp add: whole t3 url)
  next
    assume "d = ParsedData"
    with block
    show t4: "getTeamFromUrl_try rt w teamUrl st
           = (Inl (JsError ''TypeError'' ''response.data.substring is not a function''), st')"
      by simp
    show "getTeamFromUrl rt w now1 now2 teamUrl st
            = (Inr (MockTeam (createMockTeamData rt (Some lid) (Some t) (season_of w teamUrl))),
               st')"
      by (simp add: whole t4 url)
  qed
qed

theorem login_page_replaced_by_mock_witness:
  "includes_str sample_doctype_login_page ''<!DOCTYPE''
   \<and> includes_str sample_doctype_login_page ''login''
   \<and> fst (getTeamFromUrl_try sample_runtime (relay_web (Text sample_doctype_login_page))
            sample_url sample_service)
       = Inl (Error ''Authentication failed - got login page instead of team data'')
   \<and> fst (getTeamFromUrl sample_runtime (relay_web (Text sample_doctype_login_page)) 1000 1001
            sample_url sample_service)
       = Inr (MockTeam (createMockTeamData sample_runtime (Some ''45107891'') (Some ''7'') ''2025''))
   \<and> includes_str sample_login_page ''login''
   \<and> \<not> includes_str sample_login_page ''<!DOCTYPE''
   \<and> fst (getTeamFromUrl sample_runtime (direct_web (Text sample_login_page)) 1000 1001
            sample_url sample_service)
       = Inr (parseTeamPage sample_runtime sample_login_page ''45107891'' ''7'' ''2025'')
   \<and> fst (getTeamFromUrl_try sample_runtime (direct_web NullData) sample_url sample_service)
       = Inl (JsError ''TypeError'' ''Cannot read properties of null (reading 'length')'')
   \<and> fst (getTeamFromUrl sample_runtime (direct_web NullData) 1000 1001 sample_url
            sample_service)
       = Inr (MockTeam (createMockTeamData sample_runtime (Some ''45107891'') (Some ''7'') ''2025''))
   \<and> fst (getTeamFromUrl_try sample_runtime (direct_web ParsedData) sample_url sample_service)
       = Inl (JsError ''TypeError'' ''response.data.substring is not a function'')
   \<and> fst (getTeamFromUrl sample_runtime (direct_web ParsedData) 1000 1001 sample_url
            sample_service)
       = Inr (MockTeam (createMockTeamData sample_runtime (Some ''45107891'') (Some ''7'') ''2025''))"
proof -
  have session: "authSession sample_service = Some sample_session"
    "sess_isAuthenticated sample_session" "1000 \<le> expiresAt sample_session"
    "1001 \<le> expiresAt sample_session"
    by (simp_all add: sample_service_def sample_session_def)
  have cookie: "cookies sample_session = ''espn_s2=abc''"
    by (simp add: sample_session_def)
  have relay:
    "url_param (relay_web d) sample_url ''leagueId'' = Some ''45107891''"
    "url_param (relay_web d) sample_url ''teamId'' = Some ''7''"
    "season_of (relay_web d) sample_url = ''2025''" for d
    by (simp_all add: relay_web_def sample_params_def season_of_def)
  have direct:
    "url_param (direct_web d) sample_url ''leagueId'' = Some ''45107891''"
    "url_param (direct_web d) sample_url ''teamId'' = Some ''7''"
    "season_of (direct_web d) sample_url = ''2025''" for d
    by (simp_all add: direct_web_def sample_params_def season_of_def)
  have ne: "''45107891'' \<noteq> []" "''7'' \<noteq> []" by simp_all
  have login_page: "includes_str sample_doctype_login_page ''<!DOCTYPE''"
    "includes_str sample_doctype_login_page ''login''"
    by (simp_all add: sample_doctype_login_page_def)
  have plain_page: "includes_str sample_login_page ''login''"
    "\<not> includes_str sample_login_page ''<!DOCTYPE''"
    by (simp_all add: sample_login_page_def)
  have relayed:
    "fetch_team_page (relay_web (Text sample_doctype_login_page))
       (teamPageUrl ''45107891'' ''7''
          (season_of (relay_web (Text sample_doctype_login_page)) sample_url))
       (cookies sample_session) sample_service
     = (Inr (Text sample_doctype_login_page),
        snd (fetch_team_page (relay_web (Text sample_doctype_login_page))
               (teamPageUrl ''45107891'' ''7'' ''2025'') ''espn_s2=abc'' sample_service))"
    unfolding relay cookie by (simp add: sample_relay_fetch)
  have answered:
    "fetch_team_page (direct_web d)
       (teamPageUrl ''45107891'' ''7'' (season_of (direct_web d) sample_url))
       (cookies sample_session) sample_service
     = (Inr d, snd (fetch_team_page (direct_web d)
                      (teamPageUrl ''45107891'' ''7'' ''2025'') ''espn_s2=abc'' sample_service))"
    for d
    unfolding direct cookie by (simp add: direct_web_fetch)
  note a = login_page_replaced_by_mock
    [OF session relay(1) ne(1) relay(2) ne(2) relayed, where rt = sample_runtime,
     THEN conjunct1, rule_format, where html = sample_doctype_login_page]
  note b = login_page_replaced_by_mock
    [OF session direct(1) ne(1) direct(2) ne(2) answered, where rt = sample_runtime,
     THEN conjunct2, THEN conjunct1, rule_format, where html = sample_login_page]
  note c = login_page_replaced_by_mock
    [OF session direct(1) ne(1) direct(2) ne(2) answered [of NullData],
     where rt = sample_runtime,
     THEN conjunct2, THEN conjunct2, THEN conjunct1, rule_format]
  note d = login_page_replaced_by_mock
    [OF session direct(1) ne(1) direct(2) ne(2) answered [of ParsedData],
     where rt = sample_runtime,
     THEN conjunct2, THEN conjunct2, THEN conjunct2, rule_format]
  from a login_page
  have a': "fst (getTeamFromUrl_try sample_runtime (relay_web (Text sample_doctype_login_page))
                   sample_url sample_service)
              = Inl (Error ''Authentication failed - got login page instead of team data'')"
    "fst (getTeamFromUrl sample_runtime (relay_web (Text sample_doctype_login_page)) 1000 1001
            sample_url sample_service)
       = Inr (MockTeam (createMockTeamData sample_runtime (Some ''45107891'') (Some ''7'')
                          ''2025''))"
    by (simp_all add: relay)
  from b plain_page
  have b': "fst (getTeamFromUrl sample_runtime (direct_web (Text sample_login_page)) 1000 1001
                   sample_url sample_service)
              = Inr (parseTeamPage sample_runtime sample_login_page ''45107891'' ''7'' ''2025'')"
    by (simp add: direct)
  from c
  have c': "fst (getTeamFromUrl_try sample_runtime (direct_web NullData) sample_url
                   sample_service)
              = Inl (JsError ''TypeError'' ''Cannot read properties of null (reading 'length')'')"
    "fst (getTeamFromUrl sample_runtime (direct_web NullData) 1000 1001 sample_url
            sample_service)
       = Inr (MockTeam (createMockTeamData sample_runtime (Some ''45107891'') (Some ''7'')
                          ''2025''))"
    by (simp_all add: direct)
  from d
  have d': "fst (getTeamFromUrl_try sample_runtime (direct_web ParsedData) sample_url
                   sample_service)
              = Inl (JsError ''TypeError'' ''response.data.substring is not a function'')"
    "fst (getTeamFromUrl sample_runtime (direct_web ParsedData) 1000 1001 sample_url
            sample_service)
       = Inr (MockTeam (createMockTeamData sample_runtime (Some ''45107891'') (Some ''7'')
                          ''2025''))"
    by (simp_all add: direct)
  from login_page plain_page a' b' c' d' show ?thesis by (intro conjI)
qed

subsection \<open>The order of the parsing strategies\<close>

lemma extractPlayers_order:
  "extractPlayers rt html =
     (if name_probe rt html \<noteq> [] then name_probe rt html
      else if table_rows rt html \<noteq> [] then table_rows rt html
      else getMockPlayers)"
  by (simp add: extractPlayers_def Let_def)

lemma extractPlayers_nonempty: "extractPlayers rt html \<noteq> []"
  by (simp add: extractPlayers_order getMockPlayers_def)

text \<open>
  Claim C3, as stated: the strategies are tried in the order structured JSON, table
  rows, known names, mock. It fails on \<open>sample_page\<close>, where the table rows give a player
  (the anchor of the row) and the known names give another one (\<^verbatim>\<open>Lions\<close>):
  \<^verbatim>\<open>extractPlayers\<close> returns the player found by name, because it searches the names first
  and reads the table rows only when no name was found.
\<close>

theorem table_rows_tried_after_names_counterexample:
  "name_probe sample_runtime sample_page = [lions_player ''ESPN'']
   \<and> table_rows sample_runtime sample_page = [mahomes_player]
   \<and> extractPlayers sample_runtime sample_page = [lions_player ''ESPN'']
   \<and> lions_player ''ESPN'' \<noteq> mahomes_player"
  by code_simp

text \<open>
  Claim C3, amended: \<^verbatim>\<open>parseTeamPage\<close> uses the structured JSON whenever a state blob is
  found and parses, whatever the other strategies find (its output is the mock team under
  the extracted team name). Otherwise the players are those of the first non-empty
  strategy in the order known names, table rows, mock players; they are returned in a
  team built from the page when a team name was extracted, and the mock team is returned
  when none was.
\<close>

theorem parse_strategy_order:
  "(extractJSONData rt html = Some jsonData \<longrightarrow>
      parseTeamPage rt html leagueId tid season
        = parseJSONTeamData rt jsonData leagueId tid season (extractTeamName rt html))
   \<and> (extractJSONData rt html = None \<longrightarrow> extractTeamName rt html \<noteq> ''ESPN Team'' \<longrightarrow>
        (\<exists>t. parseTeamPage rt html leagueId tid season = ScrapedTeam t
           \<and> st_name t = extractTeamName rt html
           \<and> sl_players (st_lineup t) = extractPlayers rt html))
   \<and> (extractJSONData rt html = None \<longrightarrow> extractTeamName rt html = ''ESPN Team'' \<longrightarrow>
        parseTeamPage rt html leagueId tid season
          = MockTeam (createMockTeamData rt (Some leagueId) (Some tid) season))
   \<and> extractPlayers rt html =
        (if name_probe rt html \<noteq> [] then name_probe rt html
         else if table_rows rt html \<noteq> [] then table_rows rt html
         else getMockPlayers)"
proof (intro conjI impI)
  assume "extractJSONData rt html = Some jsonData"
  then show "parseTeamPage rt html leagueId tid season
        = parseJSONTeamData rt jsonData leagueId tid season (extractTeamName rt html)"
    by (simp add: parseTeamPage_def Let_def)
next
  assume "extractJSONData rt html = None" "extractTeamName rt html \<noteq> ''ESPN Team''"
  then show "\<exists>t. parseTeamPage rt html leagueId tid season = ScrapedTeam t
           \<and> st_name t = extractTeamName rt html
           \<and> sl_players (st_lineup t) = extractPlayers rt html"
    using extractPlayers_nonempty [of rt html] by (simp add: parseTeamPage_def Let_def)
next
  assume "extractJSONData rt html = None" "extractTeamName rt html = ''ESPN Team''"
  then show "parseTeamPage rt html leagueId tid season
          = MockTeam (createMockTeamData rt (Some leagueId) (Some tid) season)"
    by (simp add: parseTeamPage_def Let_def createMockTeamData_def)
next
  show "extractPlayers rt html =
        (if name_probe rt html \<noteq> [] then name_probe rt html
         else if table_rows rt html \<noteq> [] then table_rows rt html
         else getMockPlayers)"
    by (rule extractPlayers_order)
qed

lemma sample_extractions:
  "extractJSONData sample_runtime sample_json_page = Some (JsonObject sample_blob)"
  "extractTeamName sample_runtime sample_json_page = ''ESPN Team''"
  "table_rows sample_runtime sample_json_page = [mahomes_player]"
  "extractJSONData sample_runtime sample_page = None"
  "extractTeamName sample_runtime sample_page = ''Gridiron Gang''"
  "extractPlayers sample_runtime sample_page = [lions_player ''ESPN'']"
  "extractJSONData sample_runtime sample_row = None"
  "extractTeamName sample_runtime sample_row = ''ESPN Team''"
  by code_simp+

theorem parse_strategy_order_witness:
  "parseTeamPage sample_runtime sample_json_page ''45107891'' ''7'' ''2025''
       = parseJSONTeamData sample_runtime (JsonObject sample_blob) ''45107891'' ''7'' ''2025''
           ''ESPN Team''
   \<and> table_rows sample_runtime sample_json_page = [mahomes_player]
   \<and> (\<exists>t. parseTeamPage sample_runtime sample_page ''45107891'' ''7'' ''2025'' = ScrapedTeam t
          \<and> st_name t = ''Gridiron Gang''
          \<and> sl_players (st_lineup t) = [lions_player ''ESPN''])
   \<and> parseTeamPage sample_runtime sample_row ''45107891'' ''7'' ''2025''
       = MockTeam (createMockTeamData sample_runtime (Some ''45107891'') (Some ''7'') ''2025'')"
proof -
  note json = parse_strategy_order
      [of sample_runtime sample_json_page "JsonObject sample_blob" "''45107891''" "''7''" "''2025''"]
  note page = parse_strategy_order
      [of sample_runtime sample_page "JsonObject sample_blob" "''45107891''" "''7''" "''2025''"]
  note bare = parse_strategy_order
      [of sample_runtime sample_row "JsonObject sample_blob" "''45107891''" "''7''" "''2025''"]
  have named: "extractTeamName sample_runtime sample_page \<noteq> ''ESPN Team''"
    by (simp add: sample_extractions(5))
  have structured:
    "parseTeamPage sample_runtime sample_json_page ''45107891'' ''7'' ''2025''
       = parseJSONTeamData sample_runtime (JsonObject sample_blob) ''45107891'' ''7'' ''2025''
           ''ESPN Team''"
    using json [THEN conjunct1, rule_format, OF sample_extractions(1)]
    unfolding sample_extractions(2) .
  have scraped:
    "\<exists>t. parseTeamPage sample_runtime sample_page ''45107891'' ''7'' ''2025'' = ScrapedTeam t
          \<and> st_name t = ''Gridiron Gang''
          \<and> sl_players (st_lineup t) = [lions_player ''ESPN'']"
    using page [THEN conjunct2, THEN conjunct1, rule_format, OF sample_extractions(4) named]
    unfolding sample_extractions(5) sample_extractions(6) .
  have mock:
    "parseTeamPage sample_runtime sample_row ''45107891'' ''7'' ''2025''
       = MockTeam (createMockTeamData sample_runtime (Some ''45107891'') (Some ''7'') ''2025'')"
    by (rule bare [THEN conjunct2, THEN conjunct2, THEN conjunct1, rule_format,
          OF sample_extractions(7) sample_extractions(8)])
  from structured sample_extractions(3) scraped mock show ?thesis by (intro conjI)
qed

section \<open>Properties of the dispatcher\<close>










section \<open>Two end-to-end scenarios of the dispatcher\<close>

text \<open>
  Connecting to Yahoo without an access token: the result is a failure that names the
  missing token, whatever the adapters would answer, so no request is involved.
\<close>

theorem yahoo_missing_token_rejected:
  assumes "toLowerCase p = ''yahoo''"
    and "creds ''accessToken'' = None \<or> creds ''accessToken'' = Some []"
  shows "connectPlatform ad p creds
           = Inr \<lparr> success = False, cr_platform = p, teams = [],
                   cr_error = Some ''Yahoo requires access token'' \<rparr>"
proof -
  from assms(2) have "connectYahoo ad creds = Inl (Error ''Yahoo requires access token'')"
    by (auto simp: connectYahoo_def)
  with assms(1) have "connectPlatform_try ad p creds = Inl (Error ''Yahoo requires access token'')"
    by (simp add: connectPlatform_try_def)
  then show ?thesis by (simp add: connectPlatform_def Error_def)
qed

theorem yahoo_missing_token_rejected_witness:
  "connectPlatform offline_adapters ''Yahoo'' sample_credentials
     = Inr \<lparr> success = False, cr_platform = ''Yahoo'', teams = [],
             cr_error = Some ''Yahoo requires access token'' \<rparr>"
proof -
  have tag: "toLowerCase ''Yahoo'' = ''yahoo''" by code_simp
  have token: "sample_credentials ''accessToken'' = None
      \<or> sample_credentials ''accessToken'' = Some []"
    by (simp add: sample_credentials_def)
  show ?thesis
    by (rule yahoo_missing_token_rejected
          [of "''Yahoo''" sample_credentials offline_adapters, OF tag token])
qed

text \<open>
  Connecting to Sleeper with the identifiers of a league and of one of its teams: the
  result is a success with exactly one team, whose identifier is the team's with the
  prefix \<^verbatim>\<open>sleeper-\<close>.
\<close>

theorem sleeper_connect_one_prefixed_team:
  assumes "toLowerCase p = ''sleeper''"
    and "creds ''leagueId'' = Some lid" "lid \<noteq> []"
    and "creds ''teamId'' = Some tid" "tid \<noteq> []"
    and "sleeper_getLeague ad lid = Inr lg"
    and "find (\<lambda>t. lt_id t = tid) (li_teams lg) = Some t"
  shows "\<exists>ft. connectPlatform ad p creds
                = Inr \<lparr> success = True, cr_platform = ''Sleeper'', teams = [ft], cr_error = None \<rparr>
            \<and> ft_id ft = ''sleeper-'' @ tid \<and> startsWith (ft_id ft) ''sleeper-''
            \<and> ft_platform ft = Sleeper"
proof -
  from assms(2-7) have "connectSleeper ad creds
      = Inr (connected ''Sleeper''
               (team_of ''sleeper-'' Sleeper tid lid (li_name lg) (parseInt ad (li_season lg)) t))"
    by (simp add: connectSleeper_def)
  with assms(1) show ?thesis
    by (simp add: connectPlatform_def connectPlatform_try_def connected_def team_of_def)
qed

theorem sleeper_connect_one_prefixed_team_witness:
  "\<exists>ft. connectPlatform sleeper_adapters ''sleeper'' sleeper_credentials
            = Inr \<lparr> success = True, cr_platform = ''Sleeper'', teams = [ft], cr_error = None \<rparr>
        \<and> ft_id ft = ''sleeper-1'' \<and> startsWith (ft_id ft) ''sleeper-''
        \<and> ft_platform ft = Sleeper"
proof -
  have tag: "toLowerCase ''sleeper'' = ''sleeper''" by code_simp
  have creds: "sleeper_credentials ''leagueId'' = Some ''123456789''"
    "sleeper_credentials ''teamId'' = Some ''1''"
    by (simp_all add: sleeper_credentials_def)
  have ne: "''123456789'' \<noteq> []" "''1'' \<noteq> []" by simp_all
  have lg: "sleeper_getLeague sleeper_adapters ''123456789'' = Inr sleeper_league"
    by (simp add: sleeper_adapters_def)
  have team: "find (\<lambda>t. lt_id t = ''1'') (li_teams sleeper_league)
      = Some \<lparr> lt_id = ''1'', lt_name = ''Gridiron Gang'',
               lt_record = \<lparr> wins = 3, losses = 1, ties = 0 \<rparr> \<rparr>"
    by (simp add: sleeper_league_def)
  from sleeper_connect_one_prefixed_team
    [of "''sleeper''" sleeper_credentials "''123456789''" "''1''" sleeper_adapters sleeper_league,
     OF tag creds(1) ne(1) creds(2) ne(2) lg team]
  show ?thesis by simp
qed

end
